theory Spec2Isabelle
  imports Complex_Main
begin

section \<open>Data model of the ingestion service\<close>

text \<open>
  The ingestion service (\<^verbatim>\<open>services/ingestion/main.go\<close>) receives \<^verbatim>\<open>CarStatus\<close> frames on a
  bidirectional gRPC stream, writes each one to Redis and to a Kafka topic, and answers
  with a \<^verbatim>\<open>BookingResponse\<close>.

  A Go \<^verbatim>\<open>float64\<close> is kept as the IEEE-754 value it denotes: \<open>Finite s m e\<close> is
  \<open>(-1)^s * m * 2^e\<close> (sign bit, integer significand, binary exponent), beside the two
  infinities and NaN. Every double is such a value (\<open>is_float64\<close> bounds the significand
  and the exponent); the service does no arithmetic on these numbers, it only stores and
  prints them. A Go \<^verbatim>\<open>int64\<close> is an \<open>int\<close>: the service never computes with one either.
\<close>

datatype float64 = Finite bool nat int | Infinity bool | NaN

fun is_float64 :: "float64 \<Rightarrow> bool" where
  "is_float64 (Finite s m e) = (m < 2 ^ 53 \<and> - 1074 \<le> e \<and> e \<le> 971)"
| "is_float64 (Infinity s) = True"
| "is_float64 NaN = True"

text \<open>The fields of \<^verbatim>\<open>pb.CarStatus\<close> that the service reads.\<close>

record CarStatus =
  CarId :: string
  Latitude :: float64
  Longitude :: float64
  BatteryLevel :: float64
  Velocity :: float64
  Timestamp :: int

text \<open>
  \<^verbatim>\<open>pb.BookingStatus\<close>: the service names one member, \<^verbatim>\<open>BOOKING_UNKNOWN\<close>; the other
  members of the enumeration are kept apart from it by their number.
\<close>

datatype BookingStatus = BOOKING_UNKNOWN | BOOKING_STATUS_OTHER nat

text \<open>
  \<^verbatim>\<open>pb.BookingResponse\<close>. Its \<^verbatim>\<open>CarId\<close> and \<^verbatim>\<open>Timestamp\<close> fields are \<open>AckCarId\<close> and
  \<open>AckTimestamp\<close> here, field names being global in a theory.
\<close>

record BookingResponse =
  BookingId :: string
  AckCarId :: string
  Status :: BookingStatus
  Message :: string
  AckTimestamp :: int

text \<open>\<^verbatim>\<open>kafka.Message\<close>, \<^verbatim>\<open>redis.GeoLocation\<close> and the values of the map given to \<^verbatim>\<open>HSet\<close>.\<close>

record kafka_Message =
  Key :: string
  Value :: string
  Time :: int

record GeoLocation =
  Name :: string
  GeoLongitude :: float64
  GeoLatitude :: float64

datatype hval = HFloat float64 | HInt int

text \<open>
  Go errors: a gRPC status error, an error wrapped by \<^verbatim>\<open>fmt.Errorf("...%w", err)\<close>, and the
  errors that Redis, Kafka and the transport return.
\<close>

datatype codes = Unauthenticated

datatype error = StatusError codes string | Errorf string error | External string

section \<open>Formatting\<close>

text \<open>\<^verbatim>\<open>%d\<close>: the decimal digits of an integer, with a minus sign when it is negative.\<close>

definition digit_char :: "nat \<Rightarrow> char" where
  "digit_char d = ''0123456789'' ! d"

function show_nat :: "nat \<Rightarrow> string" where
  "show_nat n = (if n < 10 then [digit_char n] else show_nat (n div 10) @ [digit_char (n mod 10)])"
  by pat_completeness auto
termination
  by (relation "measure id") auto

declare show_nat.simps [simp del]

definition show_int :: "int \<Rightarrow> string" where
  "show_int i = (if i < 0 then CHR ''-'' # show_nat (nat (- i)) else show_nat (nat i))"

text \<open>
  \<^verbatim>\<open>%.Nf\<close> on a float64: \<^verbatim>\<open>NaN\<close>, \<^verbatim>\<open>+Inf\<close> and \<^verbatim>\<open>-Inf\<close> for the values that are not
  numbers; otherwise the sign (also of a negative zero), and the exact value rounded to
  \<open>prec\<close> decimals, ties to even. \<open>round_scaled prec m e\<close> is \<open>m * 2^e * 10^prec\<close> rounded
  to an integer.
\<close>

definition round_scaled :: "nat \<Rightarrow> nat \<Rightarrow> int \<Rightarrow> nat" where
  "round_scaled prec m e =
     (if 0 \<le> e then m * 10 ^ prec * 2 ^ nat e
      else let num = m * 10 ^ prec; den = 2 ^ nat (- e); q = num div den; r = num mod den
           in if den < 2 * r \<or> (2 * r = den \<and> odd q) then q + 1 else q)"

definition pad_zero :: "nat \<Rightarrow> string \<Rightarrow> string" where
  "pad_zero w ds = replicate (w - length ds) CHR ''0'' @ ds"

fun fmt_f :: "nat \<Rightarrow> float64 \<Rightarrow> string" where
  "fmt_f prec NaN = ''NaN''"
| "fmt_f prec (Infinity s) = (if s then ''-Inf'' else ''+Inf'')"
| "fmt_f prec (Finite s m e) =
     (let n = round_scaled prec m e
      in (if s then ''-'' else '''') @ show_nat (n div 10 ^ prec) @
         (if prec = 0 then '''' else CHR ''.'' # pad_zero prec (show_nat (n mod 10 ^ prec))))"

section \<open>The world outside the service\<close>

text \<open>
  Redis, the Kafka topic and the peer of the stream are explicit state. \<open>geo\<close> maps a key
  to its geospatial set (member to longitude and latitude), \<open>hashes\<close> a key to its hash,
  \<open>topic\<close> holds the messages written to \<^verbatim>\<open>fleet-events\<close>, \<open>sent\<close> the responses the peer
  was sent, \<open>logs\<close> what the service logged and \<open>calls\<close> every call the service made, in
  order, whether or not it succeeded.
\<close>

datatype call =
    Recv
  | GeoAdd string GeoLocation
  | HSet string "(string \<times> hval) list"
  | WriteMessages kafka_Message
  | Send BookingResponse

datatype log_entry =
    LogConnected
  | LogReceived string float64 float64 float64
  | LogRedisFailed error
  | LogKafkaFailed error
  | LogStreamEnded error
  | LogSendFailed error

record world =
  geo :: "string \<Rightarrow> string \<rightharpoonup> float64 \<times> float64"
  hashes :: "string \<Rightarrow> string \<rightharpoonup> hval"
  topic :: "kafka_Message list"
  sent :: "BookingResponse list"
  logs :: "log_entry list"
  calls :: "call list"

text \<open>
  What the outside decides while one frame is handled: whether each call fails (and with
  which error), and what the clock reads at each \<^verbatim>\<open>time.Now()\<close>.
\<close>

record outcomes =
  geoadd_err :: "error option"
  hset_err :: "error option"
  kafka_err :: "error option"
  send_err :: "error option"
  now_msg :: int
  now_id :: int
  now_ts :: int

text \<open>
  A call is recorded, and takes effect when it does not fail: \<^verbatim>\<open>GEOADD\<close> sets the member's
  position, \<^verbatim>\<open>HSET\<close> sets the given fields of the hash and keeps its other fields, a
  written message is appended to the topic, a sent response reaches the peer.
\<close>

definition redis_GeoAdd :: "error option \<Rightarrow> string \<Rightarrow> GeoLocation \<Rightarrow> world \<Rightarrow> error option \<times> world" where
  "redis_GeoAdd res key loc w =
     (let w' = w\<lparr>calls := calls w @ [GeoAdd key loc]\<rparr>
      in (res, case res of
                 Some _ \<Rightarrow> w'
               | None \<Rightarrow> w'\<lparr>geo := (geo w')(key := (geo w' key)(Name loc \<mapsto> (GeoLongitude loc, GeoLatitude loc)))\<rparr>))"

definition redis_HSet :: "error option \<Rightarrow> string \<Rightarrow> (string \<times> hval) list \<Rightarrow> world \<Rightarrow> error option \<times> world" where
  "redis_HSet res key kvs w =
     (let w' = w\<lparr>calls := calls w @ [HSet key kvs]\<rparr>
      in (res, case res of
                 Some _ \<Rightarrow> w'
               | None \<Rightarrow> w'\<lparr>hashes := (hashes w')(key := hashes w' key ++ map_of kvs)\<rparr>))"

definition kafka_WriteMessages :: "error option \<Rightarrow> kafka_Message \<Rightarrow> world \<Rightarrow> error option \<times> world" where
  "kafka_WriteMessages res m w =
     (let w' = w\<lparr>calls := calls w @ [WriteMessages m]\<rparr>
      in (res, case res of Some _ \<Rightarrow> w' | None \<Rightarrow> w'\<lparr>topic := topic w' @ [m]\<rparr>))"

definition stream_Send :: "error option \<Rightarrow> BookingResponse \<Rightarrow> world \<Rightarrow> error option \<times> world" where
  "stream_Send res r w =
     (let w' = w\<lparr>calls := calls w @ [Send r]\<rparr>
      in (res, case res of Some _ \<Rightarrow> w' | None \<Rightarrow> w'\<lparr>sent := sent w' @ [r]\<rparr>))"

definition log_Printf :: "log_entry \<Rightarrow> world \<Rightarrow> world" where
  "log_Printf l w = w\<lparr>logs := logs w @ [l]\<rparr>"

section \<open>The service\<close>

definition apiTokenValue :: string where
  "apiTokenValue = ''greenlane-secret-token''"

subsection \<open>writeToRedis\<close>

definition writeToRedis :: "outcomes \<Rightarrow> CarStatus \<Rightarrow> world \<Rightarrow> error option \<times> world" where
  "writeToRedis env carStatus w =
     (let key = ''fleet:locations'';
          (err, w1) = redis_GeoAdd (geoadd_err env) key
                        \<lparr>Name = CarId carStatus,
                         GeoLongitude = Longitude carStatus,
                         GeoLatitude = Latitude carStatus\<rparr> w
      in case err of
           Some e \<Rightarrow> (Some (Errorf ''ERROR: GEOADD failed: '' e), w1)
         | None \<Rightarrow>
             (let (_, w2) = redis_HSet (hset_err env) (''car:'' @ CarId carStatus)
                              [(''battery'', HFloat (BatteryLevel carStatus)),
                               (''velocity'', HFloat (Velocity carStatus)),
                               (''timestamp'', HInt (Timestamp carStatus))] w1
              in (None, w2)))"

subsection \<open>emitToKafka\<close>

definition telemetry_message :: "outcomes \<Rightarrow> CarStatus \<Rightarrow> kafka_Message" where
  \<open>telemetry_message env carStatus =
     \<lparr>Key = CarId carStatus,
      Value = ''{"car_id":"'' @ CarId carStatus @
              ''","lat":'' @ fmt_f 6 (Latitude carStatus) @
              '',"lon":'' @ fmt_f 6 (Longitude carStatus) @
              '',"battery":'' @ fmt_f 2 (BatteryLevel carStatus) @
              '',"velocity":'' @ fmt_f 2 (Velocity carStatus) @
              '',"timestamp":'' @ show_int (Timestamp carStatus) @
              '',"event_type":"telemetry"}'',
      Time = now_msg env\<rparr>\<close>

definition emitToKafka :: "outcomes \<Rightarrow> CarStatus \<Rightarrow> world \<Rightarrow> error option \<times> world" where
  "emitToKafka env carStatus w =
     kafka_WriteMessages (kafka_err env) (telemetry_message env carStatus) w"

subsection \<open>StreamTelemetry\<close>

definition ack_response :: "outcomes \<Rightarrow> CarStatus \<Rightarrow> BookingResponse" where
  "ack_response env carStatus =
     \<lparr>BookingId = ''ack-'' @ CarId carStatus @ ''-'' @ show_int (now_id env),
      AckCarId = CarId carStatus,
      Status = BOOKING_UNKNOWN,
      Message = ''Telemetry received'',
      AckTimestamp = now_ts env\<rparr>"

text \<open>
  The body of the loop after a frame has been received: the result is the error that ends
  the loop, if any.
\<close>

definition handle_frame :: "outcomes \<Rightarrow> CarStatus \<Rightarrow> world \<Rightarrow> error option \<times> world" where
  "handle_frame env carStatus w =
     (let w0 = log_Printf (LogReceived (CarId carStatus) (Latitude carStatus)
                             (Longitude carStatus) (BatteryLevel carStatus)) w;
          (err1, w1) = writeToRedis env carStatus w0;
          w2 = (case err1 of Some e \<Rightarrow> log_Printf (LogRedisFailed e) w1 | None \<Rightarrow> w1);
          (err2, w3) = emitToKafka env carStatus w2;
          w4 = (case err2 of Some e \<Rightarrow> log_Printf (LogKafkaFailed e) w3 | None \<Rightarrow> w3);
          response = ack_response env carStatus;
          (err3, w5) = stream_Send (send_err env) response w4
      in case err3 of
           Some e \<Rightarrow> (Some e, log_Printf (LogSendFailed e) w5)
         | None \<Rightarrow> (None, w5))"

text \<open>
  The stream is the frames the peer sends, each with what the outside decides while it is
  handled, and the error that \<^verbatim>\<open>Recv\<close> returns after the last of them (\<^verbatim>\<open>io.EOF\<close> when the
  peer closes the stream, a transport error otherwise). The loop ends only by returning
  an error.
\<close>

fun recv_loop :: "(CarStatus \<times> outcomes) list \<Rightarrow> error \<Rightarrow> world \<Rightarrow> error option \<times> world" where
  "recv_loop [] e w =
     (Some e, log_Printf (LogStreamEnded e) (w\<lparr>calls := calls w @ [Recv]\<rparr>))"
| "recv_loop ((carStatus, env) # rest) e w =
     (case handle_frame env carStatus (w\<lparr>calls := calls w @ [Recv]\<rparr>) of
        (Some err, w') \<Rightarrow> (Some err, w')
      | (None, w') \<Rightarrow> recv_loop rest e w')"

definition StreamTelemetry :: "(CarStatus \<times> outcomes) list \<Rightarrow> error \<Rightarrow> world \<Rightarrow> error option \<times> world" where
  "StreamTelemetry frames e w = recv_loop frames e (log_Printf LogConnected w)"

subsection \<open>Authentication\<close>

text \<open>
  The metadata of a call maps a key to its values; \<open>None\<close> is a context that carries no
  metadata at all. \<^verbatim>\<open>md.Get\<close> gives no values for a key that is absent.
\<close>

type_synonym MD = "string \<rightharpoonup> string list"

definition md_Get :: "MD \<Rightarrow> string \<Rightarrow> string list" where
  "md_Get md k = (case md k of None \<Rightarrow> [] | Some vs \<Rightarrow> vs)"

definition validateToken :: "MD option \<Rightarrow> error option" where
  "validateToken ctx =
     (case ctx of
        None \<Rightarrow> Some (StatusError Unauthenticated ''missing metadata'')
      | Some md \<Rightarrow>
          (let tokens = md_Get md ''x-api-token''
           in if length tokens = 0 then Some (StatusError Unauthenticated ''missing x-api-token'')
              else if tokens ! 0 \<noteq> apiTokenValue then Some (StatusError Unauthenticated ''invalid x-api-token'')
              else None))"

definition authStreamInterceptor ::
  "MD option \<Rightarrow> (world \<Rightarrow> error option \<times> world) \<Rightarrow> world \<Rightarrow> error option \<times> world" where
  "authStreamInterceptor ctx handler w =
     (case validateToken ctx of
        Some err \<Rightarrow> (Some err, w)
      | None \<Rightarrow> handler w)"

section \<open>Vocabulary of the properties\<close>

text \<open>The calls of each kind among a list of calls, in order.\<close>

fun geoadds_of :: "call list \<Rightarrow> (string \<times> GeoLocation) list" where
  "geoadds_of [] = []"
| "geoadds_of (GeoAdd k l # cs) = (k, l) # geoadds_of cs"
| "geoadds_of (_ # cs) = geoadds_of cs"

fun hsets_of :: "call list \<Rightarrow> (string \<times> (string \<times> hval) list) list" where
  "hsets_of [] = []"
| "hsets_of (HSet k kvs # cs) = (k, kvs) # hsets_of cs"
| "hsets_of (_ # cs) = hsets_of cs"

fun writes_of :: "call list \<Rightarrow> kafka_Message list" where
  "writes_of [] = []"
| "writes_of (WriteMessages m # cs) = m # writes_of cs"
| "writes_of (_ # cs) = writes_of cs"

fun sends_of :: "call list \<Rightarrow> BookingResponse list" where
  "sends_of [] = []"
| "sends_of (Send r # cs) = r # sends_of cs"
| "sends_of (_ # cs) = sends_of cs"

text \<open>
  The frames of a stream that \<^verbatim>\<open>Recv\<close> hands to the loop: all of them up to the first one
  whose acknowledgment cannot be sent. Whether Redis or Kafka fail plays no part.
\<close>

fun received :: "(CarStatus \<times> outcomes) list \<Rightarrow> (CarStatus \<times> outcomes) list" where
  "received [] = []"
| "received ((c, env) # rest) =
     (c, env) # (case send_err env of None \<Rightarrow> received rest | Some _ \<Rightarrow> [])"

text \<open>The location and the hash fields that \<open>writeToRedis\<close> builds from a frame.\<close>

definition frame_location :: "CarStatus \<Rightarrow> GeoLocation" where
  "frame_location c = \<lparr>Name = CarId c, GeoLongitude = Longitude c, GeoLatitude = Latitude c\<rparr>"

definition frame_hash :: "CarStatus \<Rightarrow> (string \<times> hval) list" where
  "frame_hash c = [(''battery'', HFloat (BatteryLevel c)), (''velocity'', HFloat (Velocity c)),
                   (''timestamp'', HInt (Timestamp c))]"

text \<open>
  A session carries a valid token when its metadata has an \<^verbatim>\<open>x-api-token\<close> entry whose
  first value is the shared secret.
\<close>

definition has_valid_token :: "MD option \<Rightarrow> bool" where
  "has_valid_token ctx =
     (case ctx of
        None \<Rightarrow> False
      | Some md \<Rightarrow>
          (case md ''x-api-token'' of
             None \<Rightarrow> False
           | Some [] \<Rightarrow> False
           | Some (t # _) \<Rightarrow> t = apiTokenValue))"

text \<open>
  Comparison of float64 values as Go's \<^verbatim>\<open><\<close> decides it: false whenever one side is NaN.
\<close>

definition f64_rat :: "bool \<Rightarrow> nat \<Rightarrow> int \<Rightarrow> rat" where
  "f64_rat s m e =
     (if s then - 1 else 1) * of_nat m * (if 0 \<le> e then 2 ^ nat e else 1 / 2 ^ nat (- e))"

fun f64_less :: "float64 \<Rightarrow> float64 \<Rightarrow> bool" where
  "f64_less NaN y = False"
| "f64_less x NaN = False"
| "f64_less (Infinity s) (Infinity t) = (s \<and> \<not> t)"
| "f64_less (Infinity s) (Finite t n f) = s"
| "f64_less (Finite s m e) (Infinity t) = (\<not> t)"
| "f64_less (Finite s m e) (Finite t n f) = (f64_rat s m e < f64_rat t n f)"

text \<open>
  The bounds of the specification: a frame is out of bounds when its latitude is outside
  [-90, 90], its longitude is outside [-180, 180], or its velocity is negative.
\<close>

definition frame_out_of_bounds :: "CarStatus \<Rightarrow> bool" where
  "frame_out_of_bounds c =
     (f64_less (Latitude c) (Finite True 90 0) \<or> f64_less (Finite False 90 0) (Latitude c) \<or>
      f64_less (Longitude c) (Finite True 180 0) \<or> f64_less (Finite False 180 0) (Longitude c) \<or>
      f64_less (Velocity c) (Finite False 0 0))"

text \<open>
  A frame is rejected when handling it makes no call to the index store and none to the
  bus, changes neither of them, and lets the session go on.
\<close>

definition frame_rejected :: "outcomes \<Rightarrow> CarStatus \<Rightarrow> world \<Rightarrow> bool" where
  "frame_rejected env c w =
     (let w' = snd (handle_frame env c w)
      in fst (handle_frame env c w) = None \<and>
         geoadds_of (calls w') = geoadds_of (calls w) \<and>
         hsets_of (calls w') = hsets_of (calls w) \<and>
         writes_of (calls w') = writes_of (calls w) \<and>
         geo w' = geo w \<and> hashes w' = hashes w \<and> topic w' = topic w)"

subsection \<open>Example inputs\<close>

text \<open>
  The frame of the specification's end-to-end scenario: CAR-001 at (40.7234, -73.9876),
  battery 85.3, velocity 45.2, each number the double nearest to it.
\<close>

definition scenario_frame :: CarStatus where
  "scenario_frame =
     \<lparr>CarId = ''CAR-001'',
      Latitude = Finite False 5731309033289364 (- 47),
      Longitude = Finite True 5206414496719333 (- 46),
      BatteryLevel = Finite False 6002453878354739 (- 46),
      Velocity = Finite False 6361334473660826 (- 47),
      Timestamp = 1701532800000\<rparr>"

text \<open>A frame whose velocity is -1, at latitude 0 and longitude 0.\<close>

definition reversing_frame :: CarStatus where
  "reversing_frame =
     \<lparr>CarId = ''CAR-002'',
      Latitude = Finite False 0 0,
      Longitude = Finite False 0 0,
      BatteryLevel = Finite False 50 0,
      Velocity = Finite True 1 0,
      Timestamp = 1701532800500\<rparr>"

definition all_ok :: outcomes where
  "all_ok =
     \<lparr>geoadd_err = None, hset_err = None, kafka_err = None, send_err = None,
      now_msg = 1701532800010, now_id = 1701532800011, now_ts = 1701532800012\<rparr>"

definition downstream_down :: outcomes where
  "downstream_down =
     \<lparr>geoadd_err = Some (External ''redis: connection refused''),
      hset_err = Some (External ''redis: connection refused''),
      kafka_err = Some (External ''kafka: broker not available''),
      send_err = None,
      now_msg = 1701532800020, now_id = 1701532800021, now_ts = 1701532800022\<rparr>"

text \<open>
  A frame at the south pole, latitude -90, and the outcomes when the index store refuses
  the \<^verbatim>\<open>GEOADD\<close> and all else works.
\<close>

definition polar_frame :: CarStatus where
  "polar_frame =
     \<lparr>CarId = ''CAR-003'',
      Latitude = Finite True 90 0,
      Longitude = Finite False 0 0,
      BatteryLevel = Finite False 50 0,
      Velocity = Finite False 0 0,
      Timestamp = 1701532801000\<rparr>"

definition geoadd_refused :: outcomes where
  "geoadd_refused =
     \<lparr>geoadd_err = Some (External ''ERR invalid longitude,latitude pair''),
      hset_err = None, kafka_err = None, send_err = None,
      now_msg = 1701532801010, now_id = 1701532801011, now_ts = 1701532801012\<rparr>"

definition initial_world :: world where
  "initial_world =
     \<lparr>geo = (\<lambda>_. Map.empty), hashes = (\<lambda>_. Map.empty), topic = [], sent = [], logs = [], calls = []\<rparr>"

section \<open>JSON well-formedness\<close>

text \<open>
  The consumers of the topic decode every message value with \<^verbatim>\<open>json.Unmarshal\<close>
  (\<^verbatim>\<open>cli/main.go\<close>), which first runs the scanner of Go's \<^verbatim>\<open>encoding/json\<close> over the bytes
  and refuses the value when the scanner reports an error. The scanner is a state machine
  over single bytes, with a stack of the objects and arrays that are open; it accepts the
  JSON grammar of RFC 8259. Its state here is the step function that reads the next byte
  and the stack (top first); an error is \<open>None\<close>.
\<close>

datatype step_state =
    St_BeginValueOrEmpty | St_BeginValue | St_BeginStringOrEmpty | St_BeginString
  | St_EndValue | St_EndTop
  | St_InString | St_InStringEsc | St_InStringEscU | St_InStringEscU1 | St_InStringEscU12
  | St_InStringEscU123
  | St_Neg | St_1 | St_0 | St_Dot | St_Dot0 | St_E | St_ESign | St_E0
  | St_T | St_Tr | St_Tru | St_F | St_Fa | St_Fal | St_Fals | St_N | St_Nu | St_Nul

datatype parse_state = parseObjectKey | parseObjectValue | parseArrayValue

type_synonym scanner = "step_state \<times> parse_state list"

definition maxNestingDepth :: nat where
  "maxNestingDepth = 10000"

definition isSpace :: "char \<Rightarrow> bool" where
  "isSpace c = (c = CHR '' '' \<or> c = CHR 0x09 \<or> c = CHR 0x0D \<or> c = CHR 0x0A)"

definition isDigit :: "char \<Rightarrow> bool" where
  "isDigit c = (c \<in> set ''0123456789'')"

definition isHex :: "char \<Rightarrow> bool" where
  "isHex c = (c \<in> set ''0123456789abcdefABCDEF'')"

definition pushParseState :: "parse_state list \<Rightarrow> parse_state \<Rightarrow> step_state \<Rightarrow> scanner option" where
  "pushParseState ps new st =
     (if length (new # ps) \<le> maxNestingDepth then Some (st, new # ps) else None)"

definition popParseState :: "parse_state list \<Rightarrow> scanner" where
  "popParseState ps =
     (let ps' = tl ps in if ps' = [] then (St_EndTop, ps') else (St_EndValue, ps'))"

definition stateEndTop :: "parse_state list \<Rightarrow> char \<Rightarrow> scanner option" where
  "stateEndTop ps c = (if \<not> isSpace c then None else Some (St_EndTop, ps))"

definition stateEndValue :: "parse_state list \<Rightarrow> char \<Rightarrow> scanner option" where
  "stateEndValue ps c =
     (case ps of
        [] \<Rightarrow> stateEndTop ps c
      | p # rest \<Rightarrow>
          if isSpace c then Some (St_EndValue, ps)
          else (case p of
                  parseObjectKey \<Rightarrow>
                    if c = CHR '':'' then Some (St_BeginValue, parseObjectValue # rest) else None
                | parseObjectValue \<Rightarrow>
                    if c = CHR '','' then Some (St_BeginString, parseObjectKey # rest)
                    else if c = CHR ''}'' then Some (popParseState ps)
                    else None
                | parseArrayValue \<Rightarrow>
                    if c = CHR '','' then Some (St_BeginValue, ps)
                    else if c = CHR '']'' then Some (popParseState ps)
                    else None))"

definition stateBeginValue :: "step_state \<Rightarrow> parse_state list \<Rightarrow> char \<Rightarrow> scanner option" where
  "stateBeginValue cur ps c =
     (if isSpace c then Some (cur, ps)
      else if c = CHR ''{'' then pushParseState ps parseObjectKey St_BeginStringOrEmpty
      else if c = CHR ''['' then pushParseState ps parseArrayValue St_BeginValueOrEmpty
      else if c = CHR 0x22 then Some (St_InString, ps)
      else if c = CHR ''-'' then Some (St_Neg, ps)
      else if c = CHR ''0'' then Some (St_0, ps)
      else if c = CHR ''t'' then Some (St_T, ps)
      else if c = CHR ''f'' then Some (St_F, ps)
      else if c = CHR ''n'' then Some (St_N, ps)
      else if isDigit c then Some (St_1, ps)
      else None)"

definition stateBeginValueOrEmpty :: "parse_state list \<Rightarrow> char \<Rightarrow> scanner option" where
  "stateBeginValueOrEmpty ps c =
     (if isSpace c then Some (St_BeginValueOrEmpty, ps)
      else if c = CHR '']'' then stateEndValue ps c
      else stateBeginValue St_BeginValueOrEmpty ps c)"

definition stateBeginString :: "step_state \<Rightarrow> parse_state list \<Rightarrow> char \<Rightarrow> scanner option" where
  "stateBeginString cur ps c =
     (if isSpace c then Some (cur, ps)
      else if c = CHR 0x22 then Some (St_InString, ps)
      else None)"

definition stateBeginStringOrEmpty :: "parse_state list \<Rightarrow> char \<Rightarrow> scanner option" where
  "stateBeginStringOrEmpty ps c =
     (if isSpace c then Some (St_BeginStringOrEmpty, ps)
      else if c = CHR ''}'' then stateEndValue (parseObjectValue # tl ps) c
      else stateBeginString St_BeginStringOrEmpty ps c)"

definition stateInString :: "parse_state list \<Rightarrow> char \<Rightarrow> scanner option" where
  "stateInString ps c =
     (if c = CHR 0x22 then Some (St_EndValue, ps)
      else if c = CHR 0x5C then Some (St_InStringEsc, ps)
      else if of_char c < (0x20 :: nat) then None
      else Some (St_InString, ps))"

definition stateInStringEsc :: "parse_state list \<Rightarrow> char \<Rightarrow> scanner option" where
  "stateInStringEsc ps c =
     (if c \<in> set [CHR ''b'', CHR ''f'', CHR ''n'', CHR ''r'', CHR ''t'', CHR 0x5C, CHR ''/'', CHR 0x22]
      then Some (St_InString, ps)
      else if c = CHR ''u'' then Some (St_InStringEscU, ps)
      else None)"

definition stateHex :: "step_state \<Rightarrow> parse_state list \<Rightarrow> char \<Rightarrow> scanner option" where
  "stateHex next ps c = (if isHex c then Some (next, ps) else None)"

definition state0 :: "parse_state list \<Rightarrow> char \<Rightarrow> scanner option" where
  "state0 ps c =
     (if c = CHR ''.'' then Some (St_Dot, ps)
      else if c = CHR ''e'' \<or> c = CHR ''E'' then Some (St_E, ps)
      else stateEndValue ps c)"

definition state1 :: "parse_state list \<Rightarrow> char \<Rightarrow> scanner option" where
  "state1 ps c = (if isDigit c then Some (St_1, ps) else state0 ps c)"

definition stateNeg :: "parse_state list \<Rightarrow> char \<Rightarrow> scanner option" where
  "stateNeg ps c =
     (if c = CHR ''0'' then Some (St_0, ps)
      else if isDigit c then Some (St_1, ps)
      else None)"

definition stateDot :: "parse_state list \<Rightarrow> char \<Rightarrow> scanner option" where
  "stateDot ps c = (if isDigit c then Some (St_Dot0, ps) else None)"

definition stateDot0 :: "parse_state list \<Rightarrow> char \<Rightarrow> scanner option" where
  "stateDot0 ps c =
     (if isDigit c then Some (St_Dot0, ps)
      else if c = CHR ''e'' \<or> c = CHR ''E'' then Some (St_E, ps)
      else stateEndValue ps c)"

definition stateESign :: "parse_state list \<Rightarrow> char \<Rightarrow> scanner option" where
  "stateESign ps c = (if isDigit c then Some (St_E0, ps) else None)"

definition stateE :: "parse_state list \<Rightarrow> char \<Rightarrow> scanner option" where
  "stateE ps c = (if c = CHR ''+'' \<or> c = CHR ''-'' then Some (St_ESign, ps) else stateESign ps c)"

definition stateE0 :: "parse_state list \<Rightarrow> char \<Rightarrow> scanner option" where
  "stateE0 ps c = (if isDigit c then Some (St_E0, ps) else stateEndValue ps c)"

definition stateLetter :: "char \<Rightarrow> step_state \<Rightarrow> parse_state list \<Rightarrow> char \<Rightarrow> scanner option" where
  "stateLetter expected next ps c = (if c = expected then Some (next, ps) else None)"

text \<open>One byte: the step function of the state reads it.\<close>

fun step :: "scanner \<Rightarrow> char \<Rightarrow> scanner option" where
  "step (St_BeginValueOrEmpty, ps) c = stateBeginValueOrEmpty ps c"
| "step (St_BeginValue, ps) c = stateBeginValue St_BeginValue ps c"
| "step (St_BeginStringOrEmpty, ps) c = stateBeginStringOrEmpty ps c"
| "step (St_BeginString, ps) c = stateBeginString St_BeginString ps c"
| "step (St_EndValue, ps) c = stateEndValue ps c"
| "step (St_EndTop, ps) c = stateEndTop ps c"
| "step (St_InString, ps) c = stateInString ps c"
| "step (St_InStringEsc, ps) c = stateInStringEsc ps c"
| "step (St_InStringEscU, ps) c = stateHex St_InStringEscU1 ps c"
| "step (St_InStringEscU1, ps) c = stateHex St_InStringEscU12 ps c"
| "step (St_InStringEscU12, ps) c = stateHex St_InStringEscU123 ps c"
| "step (St_InStringEscU123, ps) c = stateHex St_InString ps c"
| "step (St_Neg, ps) c = stateNeg ps c"
| "step (St_1, ps) c = state1 ps c"
| "step (St_0, ps) c = state0 ps c"
| "step (St_Dot, ps) c = stateDot ps c"
| "step (St_Dot0, ps) c = stateDot0 ps c"
| "step (St_E, ps) c = stateE ps c"
| "step (St_ESign, ps) c = stateESign ps c"
| "step (St_E0, ps) c = stateE0 ps c"
| "step (St_T, ps) c = stateLetter CHR ''r'' St_Tr ps c"
| "step (St_Tr, ps) c = stateLetter CHR ''u'' St_Tru ps c"
| "step (St_Tru, ps) c = stateLetter CHR ''e'' St_EndValue ps c"
| "step (St_F, ps) c = stateLetter CHR ''a'' St_Fa ps c"
| "step (St_Fa, ps) c = stateLetter CHR ''l'' St_Fal ps c"
| "step (St_Fal, ps) c = stateLetter CHR ''s'' St_Fals ps c"
| "step (St_Fals, ps) c = stateLetter CHR ''e'' St_EndValue ps c"
| "step (St_N, ps) c = stateLetter CHR ''u'' St_Nu ps c"
| "step (St_Nu, ps) c = stateLetter CHR ''l'' St_Nul ps c"
| "step (St_Nul, ps) c = stateLetter CHR ''l'' St_EndValue ps c"

text \<open>The bytes of a text, one after the other, until one is refused.\<close>

fun scan :: "scanner \<Rightarrow> string \<Rightarrow> scanner option" where
  "scan s [] = Some s"
| "scan s (c # cs) = (case step s c of None \<Rightarrow> None | Some s' \<Rightarrow> scan s' cs)"

text \<open>
  \<^verbatim>\<open>checkValid\<close>: the text is scanned from the start state, and at its end the top-level
  value must be complete, at once or after a space that ends a number.
\<close>

definition eof :: "scanner \<Rightarrow> bool" where
  "eof s =
     (if fst s = St_EndTop then True
      else (case step s CHR '' '' of None \<Rightarrow> False | Some s' \<Rightarrow> fst s' = St_EndTop))"

definition checkValid :: "string \<Rightarrow> bool" where
  "checkValid data =
     (case scan (St_BeginValue, []) data of None \<Rightarrow> False | Some s \<Rightarrow> eof s)"

text \<open>A JSON object: a well-formed JSON text whose value starts with an opening brace.\<close>

definition json_object :: "string \<Rightarrow> bool" where
  "json_object data =
     (checkValid data \<and> (case dropWhile isSpace data of [] \<Rightarrow> False | c # _ \<Rightarrow> c = CHR ''{''))"

text \<open>A float64 that is a number, and a byte that may stand in a JSON string as it is.\<close>

fun is_finite :: "float64 \<Rightarrow> bool" where
  "is_finite (Finite s m e) = True"
| "is_finite (Infinity s) = False"
| "is_finite NaN = False"

definition plain_char :: "char \<Rightarrow> bool" where
  "plain_char c = (c \<noteq> CHR 0x22 \<and> c \<noteq> CHR 0x5C \<and> (0x20 :: nat) \<le> of_char c)"

section \<open>float64 arithmetic\<close>

text \<open>
  The pricing service computes with float64 numbers. Each operation of IEEE 754 gives the
  double nearest to the exact result, ties to the even significand: \<open>f64_nearest s a b\<close>
  is that double for the exact value \<open>\<plusminus> a / b\<close> (minus when \<open>s\<close> holds, \<open>b\<close> positive). Its
  significand has 53 bits and an exponent of at least -1074; it is infinite from
  \<open>2^1024 - 2^970\<close> on. Operations are rounded one by one (no fused multiply-add).
\<close>

function bit_length :: "nat \<Rightarrow> nat" where
  "bit_length n = (if n = 0 then 0 else bit_length (n div 2) + 1)"
  by pat_completeness auto
termination
  by (relation "measure id") auto

declare bit_length.simps [simp del]

definition round_half_even :: "nat \<Rightarrow> nat \<Rightarrow> nat" where
  "round_half_even a b =
     (let q = a div b; r = a mod b
      in if b < 2 * r \<or> (2 * r = b \<and> odd q) then q + 1 else q)"

text \<open>The integer part of the binary logarithm of \<open>a / b\<close>, both positive.\<close>

definition floor_log2 :: "nat \<Rightarrow> nat \<Rightarrow> int" where
  "floor_log2 a b =
     (let d = int (bit_length a) - int (bit_length b)
      in if (if 0 \<le> d then b * 2 ^ nat d \<le> a else b \<le> a * 2 ^ nat (- d)) then d else d - 1)"

definition f64_nearest :: "bool \<Rightarrow> nat \<Rightarrow> nat \<Rightarrow> float64" where
  "f64_nearest s a b =
     (if a = 0 then Finite s 0 0
      else if (2 ^ 1024 - 2 ^ 970) * b \<le> a then Infinity s
      else let e = max (floor_log2 a b - 52) (- 1074);
               m = (if 0 \<le> e then round_half_even a (b * 2 ^ nat e)
                    else round_half_even (a * 2 ^ nat (- e)) b)
           in if m = 2 ^ 53 then Finite s (2 ^ 52) (e + 1)
              else if m = 0 then Finite s 0 0
              else Finite s m e)"

text \<open>The magnitude \<open>m * 2^e\<close> of a finite double as a fraction.\<close>

definition f64_num :: "nat \<Rightarrow> int \<Rightarrow> nat" where
  "f64_num m e = (if 0 \<le> e then m * 2 ^ nat e else m)"

definition f64_den :: "int \<Rightarrow> nat" where
  "f64_den e = (if 0 \<le> e then 1 else 2 ^ nat (- e))"

fun f64_neg :: "float64 \<Rightarrow> float64" where
  "f64_neg NaN = NaN"
| "f64_neg (Infinity s) = Infinity (\<not> s)"
| "f64_neg (Finite s m e) = Finite (\<not> s) m e"

fun f64_add :: "float64 \<Rightarrow> float64 \<Rightarrow> float64" where
  "f64_add NaN y = NaN"
| "f64_add x NaN = NaN"
| "f64_add (Infinity s) (Infinity t) = (if s = t then Infinity s else NaN)"
| "f64_add (Infinity s) (Finite t n f) = Infinity s"
| "f64_add (Finite s m e) (Infinity t) = Infinity t"
| "f64_add (Finite s m e) (Finite t n f) =
     (let x = (if s then - 1 else 1) * int (f64_num m e * f64_den f);
          y = (if t then - 1 else 1) * int (f64_num n f * f64_den e);
          z = x + y
      in if z = 0 then Finite (s \<and> t) 0 0
         else f64_nearest (z < 0) (nat \<bar>z\<bar>) (f64_den e * f64_den f))"

definition f64_sub :: "float64 \<Rightarrow> float64 \<Rightarrow> float64" where
  "f64_sub x y = f64_add x (f64_neg y)"

fun f64_mul :: "float64 \<Rightarrow> float64 \<Rightarrow> float64" where
  "f64_mul NaN y = NaN"
| "f64_mul x NaN = NaN"
| "f64_mul (Infinity s) (Infinity t) = Infinity (s \<noteq> t)"
| "f64_mul (Infinity s) (Finite t n f) = (if n = 0 then NaN else Infinity (s \<noteq> t))"
| "f64_mul (Finite s m e) (Infinity t) = (if m = 0 then NaN else Infinity (s \<noteq> t))"
| "f64_mul (Finite s m e) (Finite t n f) =
     f64_nearest (s \<noteq> t) (f64_num m e * f64_num n f) (f64_den e * f64_den f)"

fun f64_div :: "float64 \<Rightarrow> float64 \<Rightarrow> float64" where
  "f64_div NaN y = NaN"
| "f64_div x NaN = NaN"
| "f64_div (Infinity s) (Infinity t) = NaN"
| "f64_div (Infinity s) (Finite t n f) = Infinity (s \<noteq> t)"
| "f64_div (Finite s m e) (Infinity t) = Finite (s \<noteq> t) 0 0"
| "f64_div (Finite s m e) (Finite t n f) =
     (if n = 0 then (if m = 0 then NaN else Infinity (s \<noteq> t))
      else f64_nearest (s \<noteq> t) (f64_num m e * f64_den f) (f64_den e * f64_num n f))"

text \<open>\<^verbatim>\<open>float64(i)\<close> of an integer, and the double that a decimal literal \<open>a / b\<close> denotes.\<close>

definition f64_of_int :: "int \<Rightarrow> float64" where
  "f64_of_int i = f64_nearest (i < 0) (nat \<bar>i\<bar>) 1"

definition f64_lit :: "nat \<Rightarrow> nat \<Rightarrow> float64" where
  "f64_lit a b = f64_nearest False a b"

text \<open>
  \<^verbatim>\<open>math.Round\<close>: the nearest integer, halves away from zero, the sign kept; and \<^verbatim>\<open>math.Pi\<close>
  as a float64.
\<close>

fun math_Round :: "float64 \<Rightarrow> float64" where
  "math_Round NaN = NaN"
| "math_Round (Infinity s) = Infinity s"
| "math_Round (Finite s m e) =
     (if 0 \<le> e then Finite s m e
      else let den = 2 ^ nat (- e); q = m div den; r = m mod den
           in Finite s (if den \<le> 2 * r then q + 1 else q) 0)"

definition math_Pi :: float64 where
  "math_Pi = Finite False 7074237752028440 (- 51)"

declare f64_add.simps [simp del] f64_mul.simps [simp del] f64_div.simps [simp del]

section \<open>The pricing service\<close>

text \<open>
  \<^verbatim>\<open>handlePricing\<close> of the mock grid service answers with a \<^verbatim>\<open>PriceResponse\<close> computed from the
  hour of the wall clock, in float64 arithmetic. Its inputs are what the clock reads (the
  milliseconds since the epoch and the hour of the day) and the sine function \<open>sn\<close> of
  the library, \<^verbatim>\<open>math.Sin\<close>, whose results the source does not fix. The \<^verbatim>\<open>Timestamp\<close> field
  of the response is \<open>PriceTimestamp\<close> here.
\<close>

record PriceResponse =
  PriceTimestamp :: int
  PricePerKwh :: float64
  GridLoad :: string
  EnergySource :: string
  Hour :: int

definition handlePricing :: "(float64 \<Rightarrow> float64) \<Rightarrow> int \<Rightarrow> int \<Rightarrow> PriceResponse" where
  "handlePricing sn now_ms hour =
     (let basePricePerKwh = f64_lit 25 100;
          amplitude = f64_lit 15 100;
          hoursFromMidnight = f64_of_int hour;
          radians = f64_div (f64_mul (f64_sub hoursFromMidnight (Finite False 6 0)) math_Pi)
                      (Finite False 12 0);
          pricePerKwh = f64_add basePricePerKwh (f64_mul amplitude (sn radians));
          gridLoad = (if f64_less (f64_lit 35 100) pricePerKwh then ''High''
                      else if f64_less (f64_lit 25 100) pricePerKwh then ''Medium''
                      else ''Low'');
          energySource = (if hour \<ge> 8 \<and> hour \<le> 18 then ''Solar''
                          else if hour \<ge> 19 \<and> hour \<le> 22 then ''Wind''
                          else ''Grid'');
          pricePerKwh = (if energySource = ''Solar'' then f64_mul pricePerKwh (f64_lit 9 10)
                         else pricePerKwh)
      in \<lparr>PriceTimestamp = now_ms,
          PricePerKwh = f64_div (math_Round (f64_mul pricePerKwh (Finite False 100 0))) (Finite False 100 0),
          GridLoad = gridLoad,
          EnergySource = energySource,
          Hour = hour\<rparr>)"

text \<open>
  What \<^verbatim>\<open>math.Sin\<close> returns at two angles: 0 at 0, and 1 at the double nearest to \<open>\<pi>/2\<close>. At
  every other angle this table has NaN.
\<close>

definition known_sines :: "float64 \<Rightarrow> float64" where
  "known_sines x =
     (if x = Finite False 0 0 then Finite False 0 0
      else if x = Finite False 7074237752028440 (- 52) then Finite False 4503599627370496 (- 52)
      else NaN)"

section \<open>Properties of the ingestion service\<close>

subsection \<open>What one frame does\<close>

lemma geoadds_of_append: "geoadds_of (xs @ ys) = geoadds_of xs @ geoadds_of ys"
  by (induction xs rule: geoadds_of.induct) simp_all

lemma hsets_of_append: "hsets_of (xs @ ys) = hsets_of xs @ hsets_of ys"
  by (induction xs rule: hsets_of.induct) simp_all

lemma writes_of_append: "writes_of (xs @ ys) = writes_of xs @ writes_of ys"
  by (induction xs rule: writes_of.induct) simp_all

lemma sends_of_append: "sends_of (xs @ ys) = sends_of xs @ sends_of ys"
  by (induction xs rule: sends_of.induct) simp_all

lemmas service_defs = handle_frame_def writeToRedis_def emitToKafka_def redis_GeoAdd_def
  redis_HSet_def kafka_WriteMessages_def stream_Send_def log_Printf_def

lemma writeToRedis_fst:
  "fst (writeToRedis env c w) = map_option (Errorf ''ERROR: GEOADD failed: '') (geoadd_err env)"
  by (cases "geoadd_err env"; cases "hset_err env") (simp_all add: service_defs Let_def)

lemma handle_frame_fst: "fst (handle_frame env c w) = send_err env"
  by (cases "geoadd_err env"; cases "hset_err env"; cases "kafka_err env"; cases "send_err env")
     (simp_all add: service_defs Let_def)

lemma handle_frame_calls:
  "calls (snd (handle_frame env c w)) =
     calls w @ GeoAdd ''fleet:locations'' (frame_location c) #
       (case geoadd_err env of None \<Rightarrow> [HSet (''car:'' @ CarId c) (frame_hash c)] | Some _ \<Rightarrow> []) @
       [WriteMessages (telemetry_message env c), Send (ack_response env c)]"
  by (cases "geoadd_err env"; cases "hset_err env"; cases "kafka_err env"; cases "send_err env")
     (simp_all add: service_defs frame_location_def frame_hash_def Let_def)

lemma handle_frame_sent:
  "sent (snd (handle_frame env c w)) =
     sent w @ (case send_err env of None \<Rightarrow> [ack_response env c] | Some _ \<Rightarrow> [])"
  by (cases "geoadd_err env"; cases "hset_err env"; cases "kafka_err env"; cases "send_err env")
     (simp_all add: service_defs Let_def)

lemma handle_frame_topic:
  "topic (snd (handle_frame env c w)) =
     topic w @ (case kafka_err env of None \<Rightarrow> [telemetry_message env c] | Some _ \<Rightarrow> [])"
  by (cases "geoadd_err env"; cases "hset_err env"; cases "kafka_err env"; cases "send_err env")
     (simp_all add: service_defs Let_def)

lemma handle_frame_logs:
  "logs (snd (handle_frame env c w)) =
     logs w @ LogReceived (CarId c) (Latitude c) (Longitude c) (BatteryLevel c) #
       (case geoadd_err env of None \<Rightarrow> [] | Some e \<Rightarrow> [LogRedisFailed (Errorf ''ERROR: GEOADD failed: '' e)]) @
       (case kafka_err env of None \<Rightarrow> [] | Some e \<Rightarrow> [LogKafkaFailed e]) @
       (case send_err env of None \<Rightarrow> [] | Some e \<Rightarrow> [LogSendFailed e])"
  by (cases "geoadd_err env"; cases "hset_err env"; cases "kafka_err env"; cases "send_err env")
     (simp_all add: service_defs Let_def)

lemma handle_frame_geo:
  "geo (snd (handle_frame env c w)) =
     (case geoadd_err env of
        None \<Rightarrow> (geo w)(''fleet:locations'' :=
                  (geo w ''fleet:locations'')(CarId c \<mapsto> (Longitude c, Latitude c)))
      | Some _ \<Rightarrow> geo w)"
  by (cases "geoadd_err env"; cases "hset_err env"; cases "kafka_err env"; cases "send_err env")
     (simp_all add: service_defs Let_def)

lemma handle_frame_hashes:
  "hashes (snd (handle_frame env c w)) =
     (if geoadd_err env = None \<and> hset_err env = None
      then (hashes w)(''car:'' @ CarId c := hashes w (''car:'' @ CarId c) ++ map_of (frame_hash c))
      else hashes w)"
  by (cases "geoadd_err env"; cases "hset_err env"; cases "kafka_err env"; cases "send_err env")
     (simp_all add: service_defs frame_hash_def Let_def)

subsection \<open>What a session does\<close>

lemma recv_loop_Cons:
  "recv_loop ((c, env) # rest) e w =
     (case send_err env of
        Some err \<Rightarrow> (Some err, snd (handle_frame env c (w\<lparr>calls := calls w @ [Recv]\<rparr>)))
      | None \<Rightarrow> recv_loop rest e (snd (handle_frame env c (w\<lparr>calls := calls w @ [Recv]\<rparr>))))"
  using handle_frame_fst [of env c "w\<lparr>calls := calls w @ [Recv]\<rparr>"]
  by (cases "handle_frame env c (w\<lparr>calls := calls w @ [Recv]\<rparr>)"; cases "send_err env") simp_all

lemma recv_loop_sent:
  "sent (snd (recv_loop frames e w)) =
     sent w @ map (\<lambda>(c, env). ack_response env c) (takeWhile (\<lambda>(c, env). send_err env = None) frames)"
proof (induction frames arbitrary: w)
  case Nil
  then show ?case by (simp add: log_Printf_def)
next
  case (Cons f frames)
  obtain c env where f: "f = (c, env)" by (cases f)
  show ?case
    unfolding f recv_loop_Cons
    by (cases "send_err env") (simp_all add: Cons.IH handle_frame_sent)
qed

lemma recv_loop_writes:
  "writes_of (calls (snd (recv_loop frames e w))) =
     writes_of (calls w) @ map (\<lambda>(c, env). telemetry_message env c) (received frames)"
proof (induction frames arbitrary: w)
  case Nil
  then show ?case by (simp add: log_Printf_def writes_of_append)
next
  case (Cons f frames)
  obtain c env where f: "f = (c, env)" by (cases f)
  show ?case
    unfolding f recv_loop_Cons
    by (cases "send_err env"; cases "geoadd_err env")
       (simp_all add: Cons.IH handle_frame_calls writes_of_append)
qed

lemma recv_loop_geoadds:
  "geoadds_of (calls (snd (recv_loop frames e w))) =
     geoadds_of (calls w) @ map (\<lambda>(c, env). (''fleet:locations'', frame_location c)) (received frames)"
proof (induction frames arbitrary: w)
  case Nil
  then show ?case by (simp add: log_Printf_def geoadds_of_append)
next
  case (Cons f frames)
  obtain c env where f: "f = (c, env)" by (cases f)
  show ?case
    unfolding f recv_loop_Cons
    by (cases "send_err env"; cases "geoadd_err env")
       (simp_all add: Cons.IH handle_frame_calls geoadds_of_append)
qed

lemma recv_loop_sends:
  "sends_of (calls (snd (recv_loop frames e w))) =
     sends_of (calls w) @ map (\<lambda>(c, env). ack_response env c) (received frames)"
proof (induction frames arbitrary: w)
  case Nil
  then show ?case by (simp add: log_Printf_def sends_of_append)
next
  case (Cons f frames)
  obtain c env where f: "f = (c, env)" by (cases f)
  show ?case
    unfolding f recv_loop_Cons
    by (cases "send_err env"; cases "geoadd_err env")
       (simp_all add: Cons.IH handle_frame_calls sends_of_append)
qed

lemma recv_loop_fst_all_sent:
  "list_all (\<lambda>(c, env). send_err env = None) frames \<Longrightarrow> fst (recv_loop frames e w) = Some e"
proof (induction frames arbitrary: w)
  case Nil
  then show ?case by simp
next
  case (Cons f frames)
  obtain c env where f: "f = (c, env)" by (cases f)
  from Cons.prems have ok: "send_err env = None" and rest: "list_all (\<lambda>(c, env). send_err env = None) frames"
    by (simp_all add: f)
  show ?case
    unfolding f recv_loop_Cons by (simp add: ok Cons.IH [OF rest])
qed

lemma received_all:
  "list_all (\<lambda>(c, env). send_err env = None) frames \<Longrightarrow> received frames = frames"
  by (induction frames) auto

lemma takeWhile_all:
  "list_all (\<lambda>(c, env). send_err env = None) frames \<Longrightarrow>
   takeWhile (\<lambda>(c, env). send_err env = None) frames = frames"
  by (induction frames) auto

lemma log_Printf_keeps [simp]:
  "calls (log_Printf l w) = calls w" "sent (log_Printf l w) = sent w"
  by (simp_all add: log_Printf_def)

subsection \<open>Authentication before the handler\<close>

text \<open>
  C2. A session whose metadata has no \<^verbatim>\<open>x-api-token\<close> entry, or whose first
  \<^verbatim>\<open>x-api-token\<close> value is not the shared secret, is failed by the interceptor with an
  Unauthenticated status error and the world as it was: the handler does not run, so no
  frame is received and nothing is written to the index store or to the bus. A session
  with the shared secret gets exactly what the handler does.
\<close>

theorem auth_before_handler:
  "(has_valid_token ctx \<longrightarrow> authStreamInterceptor ctx handler w = handler w) \<and>
   (\<not> has_valid_token ctx \<longrightarrow>
      (\<exists>msg. authStreamInterceptor ctx handler w = (Some (StatusError Unauthenticated msg), w)))"
proof (cases ctx)
  case None
  then show ?thesis
    by (simp add: has_valid_token_def authStreamInterceptor_def validateToken_def)
next
  case (Some md)
  show ?thesis
  proof (cases "md ''x-api-token''")
    case None
    with Some show ?thesis
      by (simp add: has_valid_token_def authStreamInterceptor_def validateToken_def md_Get_def)
  next
    case (Some tokens)
    with \<open>ctx = Some md\<close> show ?thesis
      by (cases tokens)
         (simp_all add: has_valid_token_def authStreamInterceptor_def validateToken_def md_Get_def)
  qed
qed

theorem auth_before_handler_witness:
  "has_valid_token (Some [''x-api-token'' \<mapsto> [apiTokenValue]]) \<and>
   authStreamInterceptor (Some [''x-api-token'' \<mapsto> [apiTokenValue]])
     (StreamTelemetry [(scenario_frame, all_ok)] (External ''EOF'')) initial_world =
   StreamTelemetry [(scenario_frame, all_ok)] (External ''EOF'') initial_world \<and>
   \<not> has_valid_token (Some [''x-api-token'' \<mapsto> [''guess'']]) \<and>
   \<not> has_valid_token (Some Map.empty) \<and>
   \<not> has_valid_token None \<and>
   (\<exists>msg. authStreamInterceptor (Some [''x-api-token'' \<mapsto> [''guess'']])
      (StreamTelemetry [(scenario_frame, all_ok)] (External ''EOF'')) initial_world =
      (Some (StatusError Unauthenticated msg), initial_world))"
proof -
  have ok: "has_valid_token (Some [''x-api-token'' \<mapsto> [apiTokenValue]])"
    by (simp add: has_valid_token_def)
  have bad: "\<not> has_valid_token (Some [''x-api-token'' \<mapsto> [''guess'']])"
    by (simp add: has_valid_token_def apiTokenValue_def)
  have none: "\<not> has_valid_token (Some Map.empty)" "\<not> has_valid_token None"
    by (simp_all add: has_valid_token_def)
  show ?thesis
    using ok bad none
      auth_before_handler [of "Some [''x-api-token'' \<mapsto> [apiTokenValue]]"
        "StreamTelemetry [(scenario_frame, all_ok)] (External ''EOF'')" initial_world]
      auth_before_handler [of "Some [''x-api-token'' \<mapsto> [''guess'']]"
        "StreamTelemetry [(scenario_frame, all_ok)] (External ''EOF'')" initial_world]
    by blast
qed

subsection \<open>The dual write and the acknowledgment\<close>

text \<open>
  C3. For every frame that a session receives, the \<^verbatim>\<open>GEOADD\<close>, the bus publish and the
  send of one acknowledgment are all attempted, in the order of the frames, whatever
  Redis and Kafka answer: which frames are received depends on the sends alone. When no
  send fails, every frame of the stream is handled and acknowledged, and the session ends
  only with the error that \<^verbatim>\<open>Recv\<close> returns at the end of the stream.
\<close>

theorem dual_write_attempted_once_acked:
  "geoadds_of (calls (snd (StreamTelemetry frames e w))) =
     geoadds_of (calls w) @ map (\<lambda>(c, env). (''fleet:locations'', frame_location c)) (received frames) \<and>
   writes_of (calls (snd (StreamTelemetry frames e w))) =
     writes_of (calls w) @ map (\<lambda>(c, env). telemetry_message env c) (received frames) \<and>
   sends_of (calls (snd (StreamTelemetry frames e w))) =
     sends_of (calls w) @ map (\<lambda>(c, env). ack_response env c) (received frames) \<and>
   (list_all (\<lambda>(c, env). send_err env = None) frames \<longrightarrow>
      received frames = frames \<and>
      fst (StreamTelemetry frames e w) = Some e \<and>
      sent (snd (StreamTelemetry frames e w)) = sent w @ map (\<lambda>(c, env). ack_response env c) frames)"
  by (simp add: StreamTelemetry_def recv_loop_geoadds recv_loop_writes recv_loop_sends
      recv_loop_sent recv_loop_fst_all_sent received_all takeWhile_all)

theorem dual_write_attempted_once_acked_witness:
  "list_all (\<lambda>(c, env). send_err env = None) [(scenario_frame, downstream_down), (reversing_frame, all_ok)] \<and>
   geoadd_err downstream_down \<noteq> None \<and> kafka_err downstream_down \<noteq> None \<and>
   writes_of (calls (snd (StreamTelemetry [(scenario_frame, downstream_down), (reversing_frame, all_ok)]
        (External ''EOF'') initial_world))) =
     [telemetry_message downstream_down scenario_frame, telemetry_message all_ok reversing_frame] \<and>
   fst (StreamTelemetry [(scenario_frame, downstream_down), (reversing_frame, all_ok)]
        (External ''EOF'') initial_world) = Some (External ''EOF'') \<and>
   sent (snd (StreamTelemetry [(scenario_frame, downstream_down), (reversing_frame, all_ok)]
        (External ''EOF'') initial_world)) =
     [ack_response downstream_down scenario_frame, ack_response all_ok reversing_frame]"
proof -
  have sends: "list_all (\<lambda>(c, env). send_err env = None)
      [(scenario_frame, downstream_down), (reversing_frame, all_ok)]"
    by (simp add: downstream_down_def all_ok_def)
  have down: "geoadd_err downstream_down \<noteq> None" "kafka_err downstream_down \<noteq> None"
    by (simp_all add: downstream_down_def)
  have start: "calls initial_world = []" "sent initial_world = []"
    by (simp_all add: initial_world_def)
  show ?thesis
    using sends down
      dual_write_attempted_once_acked [of "[(scenario_frame, downstream_down), (reversing_frame, all_ok)]"
        "External ''EOF''" initial_world]
    by (simp add: start)
qed

subsection \<open>The index-store write\<close>

lemma frame_hash_overwrite:
  "(h ++ map_of (frame_hash c')) ++ map_of (frame_hash c) = h ++ map_of (frame_hash c)"
  by (rule ext) (simp add: map_add_def frame_hash_def)

text \<open>
  C5, as stated, fails. The frame at latitude -90 is within the bounds of the
  specification; when the index store answers its \<^verbatim>\<open>GEOADD\<close> with an error, no \<^verbatim>\<open>HSET\<close> is
  issued, neither the location nor the hash of the agent is written, and the event is
  published all the same. When an earlier frame of the same agent was stored, its hash
  and its location are still there after the later frame.
\<close>

theorem refused_geoadd_writes_nothing:
  "\<not> frame_out_of_bounds polar_frame \<and>
   geoadds_of (calls (snd (handle_frame geoadd_refused polar_frame initial_world))) =
     [(''fleet:locations'', frame_location polar_frame)] \<and>
   hsets_of (calls (snd (handle_frame geoadd_refused polar_frame initial_world))) = [] \<and>
   geo (snd (handle_frame geoadd_refused polar_frame initial_world)) ''fleet:locations'' ''CAR-003'' = None \<and>
   hashes (snd (handle_frame geoadd_refused polar_frame initial_world)) ''car:CAR-003'' ''battery'' = None \<and>
   topic (snd (handle_frame geoadd_refused polar_frame initial_world)) =
     [telemetry_message geoadd_refused polar_frame] \<and>
   hashes (snd (handle_frame geoadd_refused polar_frame
       (snd (handle_frame all_ok (polar_frame\<lparr>Latitude := Finite False 0 0, BatteryLevel := Finite False 90 0\<rparr>)
          initial_world)))) ''car:CAR-003'' ''battery'' = Some (HFloat (Finite False 90 0)) \<and>
   geo (snd (handle_frame geoadd_refused polar_frame
       (snd (handle_frame all_ok (polar_frame\<lparr>Latitude := Finite False 0 0, BatteryLevel := Finite False 90 0\<rparr>)
          initial_world)))) ''fleet:locations'' ''CAR-003'' = Some (Finite False 0 0, Finite False 0 0)"
proof -
  have bounds: "\<not> frame_out_of_bounds polar_frame"
    by (simp add: frame_out_of_bounds_def polar_frame_def f64_rat_def)
  have env: "geoadd_err geoadd_refused \<noteq> None" "kafka_err geoadd_refused = None"
    "geoadd_err all_ok = None" "hset_err all_ok = None"
    by (simp_all add: geoadd_refused_def all_ok_def)
  have start: "calls initial_world = []" "topic initial_world = []"
    "geo initial_world = (\<lambda>_. Map.empty)" "hashes initial_world = (\<lambda>_. Map.empty)"
    by (simp_all add: initial_world_def)
  have frame: "CarId polar_frame = ''CAR-003''" "Longitude polar_frame = Finite False 0 0"
    by (simp_all add: polar_frame_def)
  from env obtain e where refused: "geoadd_err geoadd_refused = Some e"
    by auto
  show ?thesis
    using bounds
    by (simp add: handle_frame_calls handle_frame_geo handle_frame_hashes handle_frame_topic
        refused env start frame frame_hash_def)
qed

text \<open>
  C5, amended. For every frame the \<^verbatim>\<open>GEOADD\<close> of the agent's location is issued, under the
  key \<^verbatim>\<open>fleet:locations\<close> with the agent identifier as member and the frame's longitude and
  latitude. When the store accepts it, the location is set and the \<^verbatim>\<open>HSET\<close> of the hash
  \<^verbatim>\<open>car:{agent id}\<close> is issued with exactly the fields battery, velocity and timestamp of
  the frame; when the store refuses it, no \<^verbatim>\<open>HSET\<close> is issued and the store is as it was.
  When the store accepts both writes, the hash holds the frame's three values, its other
  fields untouched, and nothing of an earlier frame \<open>c'\<close> of the same agent is kept: the
  store after both frames is the store after the later one alone.
\<close>

theorem index_store_upsert_when_accepted:
  "geoadds_of (calls (snd (handle_frame env c w))) =
     geoadds_of (calls w) @
       [(''fleet:locations'',
         \<lparr>Name = CarId c, GeoLongitude = Longitude c, GeoLatitude = Latitude c\<rparr>)] \<and>
   (geoadd_err env = None \<longrightarrow>
      geo (snd (handle_frame env c w)) ''fleet:locations'' (CarId c) = Some (Longitude c, Latitude c) \<and>
      hsets_of (calls (snd (handle_frame env c w))) =
        hsets_of (calls w) @
          [(''car:'' @ CarId c,
            [(''battery'', HFloat (BatteryLevel c)), (''velocity'', HFloat (Velocity c)),
             (''timestamp'', HInt (Timestamp c))])]) \<and>
   (geoadd_err env \<noteq> None \<longrightarrow>
      hsets_of (calls (snd (handle_frame env c w))) = hsets_of (calls w) \<and>
      geo (snd (handle_frame env c w)) = geo w \<and>
      hashes (snd (handle_frame env c w)) = hashes w) \<and>
   (geoadd_err env = None \<and> hset_err env = None \<longrightarrow>
      hashes (snd (handle_frame env c w)) (''car:'' @ CarId c) ''battery'' = Some (HFloat (BatteryLevel c)) \<and>
      hashes (snd (handle_frame env c w)) (''car:'' @ CarId c) ''velocity'' = Some (HFloat (Velocity c)) \<and>
      hashes (snd (handle_frame env c w)) (''car:'' @ CarId c) ''timestamp'' = Some (HInt (Timestamp c)) \<and>
      (\<forall>f. f \<noteq> ''battery'' \<and> f \<noteq> ''velocity'' \<and> f \<noteq> ''timestamp'' \<longrightarrow>
           hashes (snd (handle_frame env c w)) (''car:'' @ CarId c) f = hashes w (''car:'' @ CarId c) f) \<and>
      (CarId c' = CarId c \<longrightarrow>
         geo (snd (handle_frame env c (snd (handle_frame env' c' w)))) = geo (snd (handle_frame env c w)) \<and>
         hashes (snd (handle_frame env c (snd (handle_frame env' c' w)))) =
           hashes (snd (handle_frame env c w))))"
proof -
  have issued: "geoadds_of (calls (snd (handle_frame env c w))) =
      geoadds_of (calls w) @
        [(''fleet:locations'',
          \<lparr>Name = CarId c, GeoLongitude = Longitude c, GeoLatitude = Latitude c\<rparr>)]"
    by (cases "geoadd_err env")
       (simp_all add: handle_frame_calls geoadds_of_append frame_location_def)
  have accepted: "geo (snd (handle_frame env c w)) ''fleet:locations'' (CarId c) = Some (Longitude c, Latitude c) \<and>
      hsets_of (calls (snd (handle_frame env c w))) =
        hsets_of (calls w) @
          [(''car:'' @ CarId c,
            [(''battery'', HFloat (BatteryLevel c)), (''velocity'', HFloat (Velocity c)),
             (''timestamp'', HInt (Timestamp c))])]"
    if "geoadd_err env = None"
    by (simp add: handle_frame_geo handle_frame_calls hsets_of_append frame_hash_def that)
  have refused: "hsets_of (calls (snd (handle_frame env c w))) = hsets_of (calls w) \<and>
      geo (snd (handle_frame env c w)) = geo w \<and>
      hashes (snd (handle_frame env c w)) = hashes w"
    if "geoadd_err env \<noteq> None"
  proof -
    from that obtain e where "geoadd_err env = Some e"
      by auto
    then show ?thesis
      by (simp add: handle_frame_geo handle_frame_hashes handle_frame_calls hsets_of_append)
  qed
  have both: "hashes (snd (handle_frame env c w)) (''car:'' @ CarId c) ''battery'' = Some (HFloat (BatteryLevel c)) \<and>
      hashes (snd (handle_frame env c w)) (''car:'' @ CarId c) ''velocity'' = Some (HFloat (Velocity c)) \<and>
      hashes (snd (handle_frame env c w)) (''car:'' @ CarId c) ''timestamp'' = Some (HInt (Timestamp c)) \<and>
      (\<forall>f. f \<noteq> ''battery'' \<and> f \<noteq> ''velocity'' \<and> f \<noteq> ''timestamp'' \<longrightarrow>
           hashes (snd (handle_frame env c w)) (''car:'' @ CarId c) f = hashes w (''car:'' @ CarId c) f) \<and>
      (CarId c' = CarId c \<longrightarrow>
         geo (snd (handle_frame env c (snd (handle_frame env' c' w)))) = geo (snd (handle_frame env c w)) \<and>
         hashes (snd (handle_frame env c (snd (handle_frame env' c' w)))) =
           hashes (snd (handle_frame env c w)))"
    if ok: "geoadd_err env = None" "hset_err env = None"
  proof -
    have h: "hashes (snd (handle_frame env c w)) (''car:'' @ CarId c) =
        hashes w (''car:'' @ CarId c) ++ map_of (frame_hash c)"
      by (simp add: handle_frame_hashes ok)
    have fields: "hashes (snd (handle_frame env c w)) (''car:'' @ CarId c) ''battery'' = Some (HFloat (BatteryLevel c)) \<and>
        hashes (snd (handle_frame env c w)) (''car:'' @ CarId c) ''velocity'' = Some (HFloat (Velocity c)) \<and>
        hashes (snd (handle_frame env c w)) (''car:'' @ CarId c) ''timestamp'' = Some (HInt (Timestamp c)) \<and>
        (\<forall>f. f \<noteq> ''battery'' \<and> f \<noteq> ''velocity'' \<and> f \<noteq> ''timestamp'' \<longrightarrow>
             hashes (snd (handle_frame env c w)) (''car:'' @ CarId c) f = hashes w (''car:'' @ CarId c) f)"
      unfolding h by (simp add: frame_hash_def map_add_def)
    have again: "geo (snd (handle_frame env c (snd (handle_frame env' c' w)))) = geo (snd (handle_frame env c w)) \<and>
        hashes (snd (handle_frame env c (snd (handle_frame env' c' w)))) = hashes (snd (handle_frame env c w))"
      if same: "CarId c' = CarId c"
      by (cases "geoadd_err env'"; cases "hset_err env'")
         (simp_all add: handle_frame_geo handle_frame_hashes ok same frame_hash_overwrite)
    from fields again show ?thesis
      by blast
  qed
  from issued accepted refused both show ?thesis
    by blast
qed

theorem index_store_upsert_when_accepted_witness:
  "geoadd_err all_ok = None \<and> hset_err all_ok = None \<and> geoadd_err geoadd_refused \<noteq> None \<and>
   CarId (scenario_frame\<lparr>BatteryLevel := Finite False 90 0\<rparr>) = CarId scenario_frame \<and>
   geo (snd (handle_frame all_ok scenario_frame initial_world)) ''fleet:locations'' ''CAR-001'' =
     Some (Finite True 5206414496719333 (- 46), Finite False 5731309033289364 (- 47)) \<and>
   hashes (snd (handle_frame all_ok scenario_frame initial_world)) ''car:CAR-001'' ''battery'' =
     Some (HFloat (Finite False 6002453878354739 (- 46))) \<and>
   hashes (snd (handle_frame all_ok scenario_frame
        (snd (handle_frame all_ok (scenario_frame\<lparr>BatteryLevel := Finite False 90 0\<rparr>) initial_world)))) =
     hashes (snd (handle_frame all_ok scenario_frame initial_world)) \<and>
   hashes (snd (handle_frame geoadd_refused scenario_frame initial_world)) = hashes initial_world"
proof -
  have ok: "geoadd_err all_ok = None" "hset_err all_ok = None"
    by (simp_all add: all_ok_def)
  have no: "geoadd_err geoadd_refused \<noteq> None"
    by (simp add: geoadd_refused_def)
  have same: "CarId (scenario_frame\<lparr>BatteryLevel := Finite False 90 0\<rparr>) = CarId scenario_frame"
    by simp
  have fields: "CarId scenario_frame = ''CAR-001''"
    "Longitude scenario_frame = Finite True 5206414496719333 (- 46)"
    "Latitude scenario_frame = Finite False 5731309033289364 (- 47)"
    "BatteryLevel scenario_frame = Finite False 6002453878354739 (- 46)"
    by (simp_all add: scenario_frame_def)
  show ?thesis
    using ok no same
      index_store_upsert_when_accepted [of all_ok scenario_frame initial_world
        "scenario_frame\<lparr>BatteryLevel := Finite False 90 0\<rparr>" all_ok]
      index_store_upsert_when_accepted [of geoadd_refused scenario_frame initial_world]
    by (simp add: fields)
qed

text \<open>
  C6. \<open>writeToRedis\<close> returns an error exactly when the \<^verbatim>\<open>GEOADD\<close> fails. What the \<^verbatim>\<open>HSET\<close>
  answers changes neither the result of handling the frame, nor what is logged, nor the
  acknowledgment that is sent.
\<close>

theorem hset_result_discarded:
  "(fst (writeToRedis env c w) \<noteq> None) = (geoadd_err env \<noteq> None) \<and>
   fst (writeToRedis (env\<lparr>hset_err := x\<rparr>) c w) = fst (writeToRedis env c w) \<and>
   fst (handle_frame (env\<lparr>hset_err := x\<rparr>) c w) = fst (handle_frame env c w) \<and>
   logs (snd (handle_frame (env\<lparr>hset_err := x\<rparr>) c w)) = logs (snd (handle_frame env c w)) \<and>
   sends_of (calls (snd (handle_frame (env\<lparr>hset_err := x\<rparr>) c w))) =
     sends_of (calls (snd (handle_frame env c w))) \<and>
   sent (snd (handle_frame (env\<lparr>hset_err := x\<rparr>) c w)) = sent (snd (handle_frame env c w))"
  by (cases "geoadd_err env"; cases "send_err env")
     (simp_all add: writeToRedis_fst handle_frame_fst handle_frame_logs handle_frame_sent
        handle_frame_calls sends_of_append ack_response_def)

subsection \<open>The acknowledgment\<close>

text \<open>
  C7. The acknowledgments that a session sends are one per received frame, in the order
  of the frames; each has the identifier \<^verbatim>\<open>ack-\<close>, the agent identifier of its frame,
  \<^verbatim>\<open>-\<close> and the clock's milliseconds when it was built, and its agent-id field is the
  agent identifier of its frame.
\<close>

theorem ack_identifier_and_agent:
  "map (\<lambda>r. (BookingId r, AckCarId r)) (sends_of (calls (snd (StreamTelemetry frames e w)))) =
     map (\<lambda>r. (BookingId r, AckCarId r)) (sends_of (calls w)) @
     map (\<lambda>(c, env). (''ack-'' @ CarId c @ ''-'' @ show_int (now_id env), CarId c)) (received frames)"
  by (simp add: StreamTelemetry_def recv_loop_sends ack_response_def case_prod_unfold)

text \<open>
  C8. Every acknowledgment that a session sends has the status \<^verbatim>\<open>BOOKING_UNKNOWN\<close> and the
  message \<^verbatim>\<open>Telemetry received\<close>, whatever the frame holds and whatever Redis and Kafka
  answered.
\<close>

theorem ack_status_and_message_constant:
  assumes "r \<in> set (sends_of (calls (snd (StreamTelemetry frames e w))))"
    and "r \<notin> set (sends_of (calls w))"
  shows "Status r = BOOKING_UNKNOWN \<and> Message r = ''Telemetry received''"
proof -
  from assms have "r \<in> set (map (\<lambda>(c, env). ack_response env c) (received frames))"
    by (simp add: StreamTelemetry_def recv_loop_sends)
  then obtain c env where "r = ack_response env c"
    by auto
  then show ?thesis
    by (simp add: ack_response_def)
qed

theorem ack_status_and_message_constant_witness:
  "ack_response downstream_down scenario_frame \<in>
     set (sends_of (calls (snd (StreamTelemetry [(scenario_frame, downstream_down)] (External ''EOF'') initial_world)))) \<and>
   ack_response downstream_down scenario_frame \<notin> set (sends_of (calls initial_world)) \<and>
   kafka_err downstream_down \<noteq> None \<and>
   Status (ack_response downstream_down scenario_frame) = BOOKING_UNKNOWN \<and>
   Message (ack_response downstream_down scenario_frame) = ''Telemetry received''"
proof -
  have start: "sends_of (calls initial_world) = []"
    by (simp add: initial_world_def)
  have sent: "ack_response downstream_down scenario_frame \<in>
     set (sends_of (calls (snd (StreamTelemetry [(scenario_frame, downstream_down)] (External ''EOF'') initial_world))))"
    by (simp add: StreamTelemetry_def recv_loop_sends start downstream_down_def del: recv_loop.simps)
  have new: "ack_response downstream_down scenario_frame \<notin> set (sends_of (calls initial_world))"
    by (simp add: start)
  have down: "kafka_err downstream_down \<noteq> None"
    by (simp add: downstream_down_def)
  show ?thesis
    using sent new down ack_status_and_message_constant [OF sent new]
    by simp
qed

subsection \<open>No bounds check\<close>

text \<open>
  C1, as the specification states it, fails: the frame with velocity -1 is out of bounds,
  and handling it writes its position to the index store and publishes it to the bus.
\<close>

theorem out_of_bounds_frame_is_processed:
  "is_float64 (Latitude reversing_frame) \<and> is_float64 (Longitude reversing_frame) \<and>
   is_float64 (BatteryLevel reversing_frame) \<and> is_float64 (Velocity reversing_frame) \<and>
   frame_out_of_bounds reversing_frame \<and>
   \<not> frame_rejected all_ok reversing_frame initial_world \<and>
   topic (snd (handle_frame all_ok reversing_frame initial_world)) = [telemetry_message all_ok reversing_frame] \<and>
   geo (snd (handle_frame all_ok reversing_frame initial_world)) ''fleet:locations'' ''CAR-002'' =
     Some (Finite False 0 0, Finite False 0 0)"
proof -
  have oob: "frame_out_of_bounds reversing_frame"
    by (simp add: frame_out_of_bounds_def reversing_frame_def f64_rat_def)
  have ok: "geoadd_err all_ok = None" "kafka_err all_ok = None"
    by (simp_all add: all_ok_def)
  have "writes_of (calls (snd (handle_frame all_ok reversing_frame initial_world))) \<noteq>
      writes_of (calls initial_world)"
    by (simp add: handle_frame_calls writes_of_append ok)
  then have rej: "\<not> frame_rejected all_ok reversing_frame initial_world"
    by (simp add: frame_rejected_def Let_def)
  have t: "topic (snd (handle_frame all_ok reversing_frame initial_world)) =
      [telemetry_message all_ok reversing_frame]"
    by (simp add: handle_frame_topic ok initial_world_def)
  have g: "geo (snd (handle_frame all_ok reversing_frame initial_world)) ''fleet:locations'' ''CAR-002'' =
      Some (Finite False 0 0, Finite False 0 0)"
    by (simp add: handle_frame_geo ok reversing_frame_def)
  have doubles: "is_float64 (Latitude reversing_frame)" "is_float64 (Longitude reversing_frame)"
    "is_float64 (BatteryLevel reversing_frame)" "is_float64 (Velocity reversing_frame)"
    by (simp_all add: reversing_frame_def)
  from doubles oob rej t g show ?thesis by simp
qed

text \<open>
  C1, amended. The service checks no bounds: no frame is rejected, whatever its latitude,
  longitude, velocity and battery level are. For every frame the \<^verbatim>\<open>GEOADD\<close> of its
  position, the publish of its event and the send of its acknowledgment are attempted.
\<close>

theorem no_frame_is_rejected:
  "\<not> frame_rejected env c w \<and>
   geoadds_of (calls (snd (handle_frame env c w))) =
     geoadds_of (calls w) @ [(''fleet:locations'', frame_location c)] \<and>
   writes_of (calls (snd (handle_frame env c w))) = writes_of (calls w) @ [telemetry_message env c] \<and>
   sends_of (calls (snd (handle_frame env c w))) = sends_of (calls w) @ [ack_response env c]"
proof -
  have "writes_of (calls (snd (handle_frame env c w))) = writes_of (calls w) @ [telemetry_message env c]"
    by (cases "geoadd_err env") (simp_all add: handle_frame_calls writes_of_append)
  moreover have "geoadds_of (calls (snd (handle_frame env c w))) =
      geoadds_of (calls w) @ [(''fleet:locations'', frame_location c)]"
    by (cases "geoadd_err env") (simp_all add: handle_frame_calls geoadds_of_append)
  moreover have "sends_of (calls (snd (handle_frame env c w))) = sends_of (calls w) @ [ack_response env c]"
    by (cases "geoadd_err env") (simp_all add: handle_frame_calls sends_of_append)
  ultimately show ?thesis
    by (simp add: frame_rejected_def Let_def)
qed

section \<open>Properties of the published event\<close>

subsection \<open>Scanning texts piece by piece\<close>

lemmas state_defs = stateEndTop_def stateEndValue_def stateBeginValue_def stateBeginValueOrEmpty_def
  stateBeginString_def stateBeginStringOrEmpty_def stateInString_def stateInStringEsc_def stateHex_def
  state0_def state1_def stateNeg_def stateDot_def stateDot0_def stateESign_def stateE_def stateE0_def
  stateLetter_def pushParseState_def popParseState_def isSpace_def isDigit_def isHex_def maxNestingDepth_def

lemma scan_append:
  "scan s (xs @ ys) = (case scan s xs of None \<Rightarrow> None | Some s' \<Rightarrow> scan s' ys)"
  by (induction xs arbitrary: s) (simp_all split: option.splits)

lemma scan_append_Some: "scan s xs = Some s' \<Longrightarrow> scan s (xs @ ys) = scan s' ys"
  by (simp add: scan_append)

lemma scan_plain:
  "list_all plain_char cs \<Longrightarrow> scan (St_InString, ps) cs = Some (St_InString, ps)"
  by (induction cs) (simp_all add: plain_char_def stateInString_def)

lemma step_digit:
  assumes "isDigit c"
  shows "state1 ps c = Some (St_1, ps)"
    and "stateDot0 ps c = Some (St_Dot0, ps)"
    and "stateDot ps c = Some (St_Dot0, ps)"
  using assms by (simp_all add: state1_def stateDot0_def stateDot_def)

lemma scan_digits:
  assumes "list_all isDigit ds"
  shows "scan (St_1, ps) ds = Some (St_1, ps)"
    and "scan (St_Dot0, ps) ds = Some (St_Dot0, ps)"
  using assms by (induction ds) (simp_all add: step_digit)

lemma scan_digits_after_dot:
  "list_all isDigit ds \<Longrightarrow> ds \<noteq> [] \<Longrightarrow> scan (St_Dot, ps) ds = Some (St_Dot0, ps)"
  by (cases ds) (simp_all add: step_digit scan_digits)

subsection \<open>The digits of a number\<close>

lemma below_ten:
  assumes "n < (10::nat)"
  shows "n \<in> {0, 1, 2, 3, 4, 5, 6, 7, 8, 9}"
  unfolding insert_iff empty_iff using assms by arith

lemma digit_char_isDigit: "n < 10 \<Longrightarrow> isDigit (digit_char n)"
  unfolding digit_char_def isDigit_def by (rule nth_mem) simp

lemma step_first_digit:
  assumes "n < 10"
  shows "stateBeginValue St_BeginValue ps (digit_char n) = Some (if n = 0 then St_0 else St_1, ps)"
    and "stateNeg ps (digit_char n) = Some (if n = 0 then St_0 else St_1, ps)"
  using below_ten [OF assms]
  by (auto simp add: digit_char_def stateBeginValue_def stateNeg_def isSpace_def isDigit_def)

lemma show_nat_digits: "list_all isDigit (show_nat n)"
proof (induction n rule: show_nat.induct)
  case (1 n)
  show ?case
  proof (cases "n < 10")
    case True
    then show ?thesis
      by (simp add: show_nat.simps [of n] digit_char_isDigit)
  next
    case False
    with "1" show ?thesis
      by (simp add: show_nat.simps [of n] digit_char_isDigit)
  qed
qed

lemma show_nat_nonempty: "show_nat n \<noteq> []"
  by (simp add: show_nat.simps [of n])

lemma scan_show_nat:
  "scan (St_BeginValue, ps) (show_nat n) = Some (if n = 0 then St_0 else St_1, ps)"
  "scan (St_Neg, ps) (show_nat n) = Some (if n = 0 then St_0 else St_1, ps)"
proof (induction n rule: show_nat.induct)
  case (1 n)
  {
    case 1
    show ?case
    proof (cases "n < 10")
      case True
      then show ?thesis
        by (simp add: show_nat.simps [of n] step_first_digit)
    next
      case False
      then have "n div 10 \<noteq> 0" by simp
      with False "1.IH"(1) show ?thesis
        by (simp add: show_nat.simps [of n] scan_append step_digit digit_char_isDigit)
    qed
  next
    case 2
    show ?case
    proof (cases "n < 10")
      case True
      then show ?thesis
        by (simp add: show_nat.simps [of n] step_first_digit)
    next
      case False
      then have "n div 10 \<noteq> 0" by simp
      with False "1.IH"(2) show ?thesis
        by (simp add: show_nat.simps [of n] scan_append step_digit digit_char_isDigit)
    qed
  }
qed

lemma scan_show_int:
  "scan (St_BeginValue, ps) (show_int i) = Some (if i = 0 then St_0 else St_1, ps)"
  by (simp add: show_int_def scan_show_nat stateBeginValue_def isSpace_def)

lemma pad_zero_digits:
  assumes "list_all isDigit ds"
  shows "list_all isDigit (pad_zero w ds)"
proof -
  have "isDigit CHR ''0''"
    by (simp add: isDigit_def)
  with assms show ?thesis
    by (auto simp: pad_zero_def list_all_iff)
qed

lemma pad_zero_nonempty: "ds \<noteq> [] \<Longrightarrow> pad_zero w ds \<noteq> []"
  by (simp add: pad_zero_def)

lemma scan_fmt_f:
  assumes "0 < prec"
  shows "scan (St_BeginValue, ps) (fmt_f prec (Finite s m e)) = Some (St_Dot0, ps)"
proof -
  define n where "n = round_scaled prec m e"
  have frac: "scan (St_Dot, ps) (pad_zero prec (show_nat (n mod 10 ^ prec))) = Some (St_Dot0, ps)"
    by (rule scan_digits_after_dot)
       (simp_all add: pad_zero_digits pad_zero_nonempty show_nat_digits show_nat_nonempty)
  have int_part: "scan (St_BeginValue, ps) ((if s then ''-'' else '''') @ show_nat (n div 10 ^ prec)) =
      Some (if n div 10 ^ prec = 0 then St_0 else St_1, ps)"
    by (cases s) (simp_all add: scan_show_nat stateBeginValue_def isSpace_def)
  have eq: "fmt_f prec (Finite s m e) =
      ((if s then ''-'' else '''') @ show_nat (n div 10 ^ prec)) @
      CHR ''.'' # pad_zero prec (show_nat (n mod 10 ^ prec))"
    using assms by (simp add: n_def Let_def)
  have "scan (St_BeginValue, ps) (((if s then ''-'' else '''') @ show_nat (n div 10 ^ prec)) @
      CHR ''.'' # pad_zero prec (show_nat (n mod 10 ^ prec))) =
      scan (if n div 10 ^ prec = 0 then St_0 else St_1, ps)
        (CHR ''.'' # pad_zero prec (show_nat (n mod 10 ^ prec)))"
    by (rule scan_append_Some [OF int_part])
  also have "\<dots> = scan (St_Dot, ps) (pad_zero prec (show_nat (n mod 10 ^ prec)))"
    by (simp add: state0_def state1_def isDigit_def)
  also have "\<dots> = Some (St_Dot0, ps)"
    by (rule frac)
  finally show ?thesis
    by (simp only: eq)
qed

subsection \<open>The value of a telemetry message\<close>

lemma telemetry_value_scan:
  assumes "scan (St_InString, [parseObjectValue]) (CarId c) = Some (St_InString, [parseObjectValue])"
    and "is_finite (Latitude c)" and "is_finite (Longitude c)"
    and "is_finite (BatteryLevel c)" and "is_finite (Velocity c)"
  shows "scan (St_BeginValue, []) (Value (telemetry_message env c)) = Some (St_EndTop, [])"
proof -
  obtain s1 m1 e1 where lat: "Latitude c = Finite s1 m1 e1"
    using assms(2) by (cases "Latitude c") simp_all
  obtain s2 m2 e2 where lon: "Longitude c = Finite s2 m2 e2"
    using assms(3) by (cases "Longitude c") simp_all
  obtain s3 m3 e3 where bat: "BatteryLevel c = Finite s3 m3 e3"
    using assms(4) by (cases "BatteryLevel c") simp_all
  obtain s4 m4 e4 where vel: "Velocity c = Finite s4 m4 e4"
    using assms(5) by (cases "Velocity c") simp_all
  show ?thesis
    by (simp add: telemetry_message_def lat lon bat vel scan_append assms(1) scan_fmt_f
        scan_show_int state_defs del: fmt_f.simps)
qed

lemma telemetry_value_json_object:
  assumes "scan (St_InString, [parseObjectValue]) (CarId c) = Some (St_InString, [parseObjectValue])"
    and "is_finite (Latitude c)" and "is_finite (Longitude c)"
    and "is_finite (BatteryLevel c)" and "is_finite (Velocity c)"
  shows "json_object (Value (telemetry_message env c))"
proof -
  have "checkValid (Value (telemetry_message env c))"
    by (simp add: checkValid_def eof_def telemetry_value_scan [OF assms])
  moreover have "case dropWhile isSpace (Value (telemetry_message env c)) of
      [] \<Rightarrow> False | ch # _ \<Rightarrow> ch = CHR ''{''"
    by (simp add: telemetry_message_def isSpace_def)
  ultimately show ?thesis
    by (simp add: json_object_def)
qed

lemma quote_id_not_scanned:
  "scan (St_BeginValue, []) (Value (telemetry_message env (c\<lparr>CarId := [CHR 0x22]\<rparr>))) = None"
  by (simp add: telemetry_message_def state_defs del: fmt_f.simps)

lemma backslash_id_not_scanned:
  "scan (St_BeginValue, []) (Value (telemetry_message env (c\<lparr>CarId := [CHR 0x5C]\<rparr>))) = None"
  by (simp add: telemetry_message_def state_defs del: fmt_f.simps)

lemma nan_latitude_not_scanned:
  "scan (St_BeginValue, []) (Value (telemetry_message env (c\<lparr>CarId := ''CAR-001'', Latitude := NaN\<rparr>))) = None"
  by (simp add: telemetry_message_def state_defs)

lemma scenario_frame_finite:
  "is_finite (Latitude scenario_frame)" "is_finite (Longitude scenario_frame)"
  "is_finite (BatteryLevel scenario_frame)" "is_finite (Velocity scenario_frame)"
  by (simp_all add: scenario_frame_def)

lemma scenario_frame_doubles:
  "is_float64 (Latitude scenario_frame)" "is_float64 (Longitude scenario_frame)"
  "is_float64 (BatteryLevel scenario_frame)" "is_float64 (Velocity scenario_frame)"
  by (simp_all add: scenario_frame_def)

text \<open>The event of the end-to-end scenario, as it is published.\<close>

lemma show_nat_small: "n < 10 \<Longrightarrow> show_nat n = [digit_char n]"
  by (simp add: show_nat.simps [of n])

lemma show_nat_big: "10 \<le> n \<Longrightarrow> show_nat n = show_nat (n div 10) @ [digit_char (n mod 10)]"
  by (simp add: show_nat.simps [of n])

lemma scenario_event_value:
  \<open>Value (telemetry_message all_ok scenario_frame) =
     ''{"car_id":"CAR-001","lat":40.723400,"lon":-73.987600,"battery":85.30,"velocity":45.20,"timestamp":1701532800000,"event_type":"telemetry"}''\<close>
  by (simp add: telemetry_message_def scenario_frame_def round_scaled_def pad_zero_def show_int_def
      show_nat_small show_nat_big digit_char_def Let_def)

text \<open>
  C4. A frame whose agent identifier is one double-quote character is published with
  the agent identifier as key and a value that is no JSON object: the scanner refuses it
  at the byte after the identifier. So is a frame whose latitude is NaN, which is printed
  as \<^verbatim>\<open>NaN\<close>.
\<close>

theorem event_value_not_always_json:
  "Key (telemetry_message env (c\<lparr>CarId := [CHR 0x22]\<rparr>)) = [CHR 0x22] \<and>
   \<not> json_object (Value (telemetry_message env (c\<lparr>CarId := [CHR 0x22]\<rparr>))) \<and>
   \<not> json_object (Value (telemetry_message env (c\<lparr>CarId := ''CAR-001'', Latitude := NaN\<rparr>)))"
  by (simp add: json_object_def checkValid_def quote_id_not_scanned nan_latitude_not_scanned)
     (simp add: telemetry_message_def)

text \<open>
  C10, as stated, fails: an agent identifier of two backslashes, and one that holds
  double quotes, comma and colon in the right places, both give a value that is a
  well-formed JSON object.
\<close>

theorem special_ids_can_give_json:
  \<open>CHR 0x5C \<in> set [CHR 0x5C, CHR 0x5C] \<and>
   json_object (Value (telemetry_message all_ok (scenario_frame\<lparr>CarId := [CHR 0x5C, CHR 0x5C]\<rparr>))) \<and>
   CHR 0x22 \<in> set ''","x":"'' \<and>
   json_object (Value (telemetry_message all_ok (scenario_frame\<lparr>CarId := ''","x":"''\<rparr>)))\<close>
proof -
  have a: "scan (St_InString, [parseObjectValue]) (CarId (scenario_frame\<lparr>CarId := [CHR 0x5C, CHR 0x5C]\<rparr>)) =
      Some (St_InString, [parseObjectValue])"
    by (simp add: state_defs)
  have b: \<open>scan (St_InString, [parseObjectValue]) (CarId (scenario_frame\<lparr>CarId := ''","x":"''\<rparr>)) =
      Some (St_InString, [parseObjectValue])\<close>
    by (simp add: state_defs)
  have \<open>json_object (Value (telemetry_message all_ok (scenario_frame\<lparr>CarId := [CHR 0x5C, CHR 0x5C]\<rparr>)))\<close>
    by (rule telemetry_value_json_object [OF a]) (simp_all add: scenario_frame_finite)
  moreover have \<open>json_object (Value (telemetry_message all_ok (scenario_frame\<lparr>CarId := ''","x":"''\<rparr>)))\<close>
    by (rule telemetry_value_json_object [OF b]) (simp_all add: scenario_frame_finite)
  ultimately show ?thesis
    by simp
qed

text \<open>
  C10, amended. The value is the format string with the agent identifier put in as it
  is. For the agent identifier that is one double quote, and for the one that is one
  backslash, the value is not a JSON object. Whenever the agent identifier has no double
  quote, no backslash and no control character, and the four numbers of the frame are
  finite, the value is a JSON object.
\<close>

theorem event_value_json_for_plain_ids:
  \<open>(\<exists>rest. Value (telemetry_message env c) = ''{"car_id":"'' @ CarId c @ rest) \<and>
   \<not> json_object (Value (telemetry_message env (c\<lparr>CarId := [CHR 0x22]\<rparr>))) \<and>
   \<not> json_object (Value (telemetry_message env (c\<lparr>CarId := [CHR 0x5C]\<rparr>))) \<and>
   (list_all plain_char (CarId c) \<and> is_finite (Latitude c) \<and> is_finite (Longitude c) \<and>
    is_finite (BatteryLevel c) \<and> is_finite (Velocity c) \<longrightarrow>
      json_object (Value (telemetry_message env c)))\<close>
proof -
  have \<open>\<exists>rest. Value (telemetry_message env c) = ''{"car_id":"'' @ CarId c @ rest\<close>
    by (simp add: telemetry_message_def del: fmt_f.simps)
  moreover have "\<not> json_object (Value (telemetry_message env (c\<lparr>CarId := [CHR 0x22]\<rparr>)))"
    by (simp add: json_object_def checkValid_def quote_id_not_scanned)
  moreover have "\<not> json_object (Value (telemetry_message env (c\<lparr>CarId := [CHR 0x5C]\<rparr>)))"
    by (simp add: json_object_def checkValid_def backslash_id_not_scanned)
  moreover have "json_object (Value (telemetry_message env c))"
    if "list_all plain_char (CarId c)" and "is_finite (Latitude c)" and "is_finite (Longitude c)"
      and "is_finite (BatteryLevel c)" and "is_finite (Velocity c)"
    using that by (intro telemetry_value_json_object scan_plain)
  ultimately show ?thesis
    by blast
qed

theorem event_value_json_for_plain_ids_witness:
  \<open>list_all plain_char (CarId scenario_frame) \<and>
   is_finite (Latitude scenario_frame) \<and> is_finite (Longitude scenario_frame) \<and>
   is_finite (BatteryLevel scenario_frame) \<and> is_finite (Velocity scenario_frame) \<and>
   json_object (Value (telemetry_message all_ok scenario_frame)) \<and>
   Value (telemetry_message all_ok scenario_frame) =
     ''{"car_id":"CAR-001","lat":40.723400,"lon":-73.987600,"battery":85.30,"velocity":45.20,"timestamp":1701532800000,"event_type":"telemetry"}''\<close>
proof -
  have plain: "list_all plain_char (CarId scenario_frame)"
    by (simp add: scenario_frame_def plain_char_def)
  show ?thesis
    using plain scenario_frame_finite scenario_event_value
      event_value_json_for_plain_ids [of all_ok scenario_frame]
    by blast
qed

section \<open>Properties of the pricing service\<close>

lemma bit_length_0: "bit_length 0 = 0"
  by (simp add: bit_length.simps)

lemma bit_length_pos: "0 < n \<Longrightarrow> bit_length n = bit_length (n div 2) + 1"
  by (simp add: bit_length.simps [of n])

lemmas ev = f64_add.simps f64_mul.simps f64_div.simps f64_nearest_def floor_log2_def
  round_half_even_def f64_num_def f64_den_def f64_sub_def f64_of_int_def f64_lit_def
  bit_length_0 bit_length_pos Let_def

text \<open>Some sums, products and quotients, as a float64 unit computes them.\<close>

lemma f64_arithmetic_examples:
  "f64_add (Finite False 7205759403792794 (- 56)) (Finite False 7205759403792794 (- 55)) =
     Finite False 5404319552844596 (- 54)"
  "f64_div (Finite False 1 0) (Finite False 3 0) = Finite False 6004799503160661 (- 54)"
  "f64_mul (Finite False 7205759403792794 (- 54)) (Finite False 8106479329266893 (- 53)) =
     Finite False 6485183463413515 (- 54)"
  "f64_add (Finite True 1 (- 1)) (Finite False 1 (- 1)) = Finite False 0 0"
  "f64_lit 1 10 = Finite False 7205759403792794 (- 56)"
  by (simp_all add: ev)

lemma price_is_hundredths:
  assumes "is_finite (f64_div (math_Round x) (Finite False 100 0))"
  shows "\<exists>s k. f64_div (math_Round x) (Finite False 100 0) = f64_nearest s k 100"
proof (cases x)
  case (Finite s m e)
  show ?thesis
  proof (cases "0 \<le> e")
    case True
    with Finite have "f64_div (math_Round x) (Finite False 100 0) = f64_nearest s (m * 2 ^ nat e) 100"
      by (simp add: f64_div.simps f64_num_def f64_den_def)
    then show ?thesis by blast
  next
    case False
    with Finite obtain n where "math_Round x = Finite s n 0"
      by (simp add: Let_def)
    then have "f64_div (math_Round x) (Finite False 100 0) = f64_nearest s n 100"
      by (simp add: f64_div.simps f64_num_def f64_den_def)
    then show ?thesis by blast
  qed
next
  case (Infinity s)
  with assms show ?thesis
    by (simp add: f64_div.simps)
next
  case NaN
  with assms show ?thesis
    by (simp add: f64_div.simps)
qed

text \<open>
  C9. Every response of the pricing service has a load tier that is Low, Medium or High,
  an energy source (Solar, Wind or Grid), the hour of the day it was given and the time
  of the clock; its price, when it is a number, is the double nearest to a whole number
  of hundredths: the service itself divides a rounded integer by 100. This holds
  whatever the sine function returns.
\<close>

theorem pricing_response_shape:
  "GridLoad (handlePricing sn now_ms hour) \<in> {''Low'', ''Medium'', ''High''} \<and>
   EnergySource (handlePricing sn now_ms hour) \<in> {''Solar'', ''Wind'', ''Grid''} \<and>
   Hour (handlePricing sn now_ms hour) = hour \<and>
   PriceTimestamp (handlePricing sn now_ms hour) = now_ms \<and>
   (is_finite (PricePerKwh (handlePricing sn now_ms hour)) \<longrightarrow>
      (\<exists>s k. PricePerKwh (handlePricing sn now_ms hour) = f64_nearest s k 100))"
proof -
  obtain x where price: "PricePerKwh (handlePricing sn now_ms hour) =
      f64_div (math_Round x) (Finite False 100 0)"
    by (simp add: handlePricing_def Let_def)
  have "is_finite (PricePerKwh (handlePricing sn now_ms hour)) \<longrightarrow>
      (\<exists>s k. PricePerKwh (handlePricing sn now_ms hour) = f64_nearest s k 100)"
    unfolding price using price_is_hundredths by blast
  moreover have "GridLoad (handlePricing sn now_ms hour) \<in> {''Low'', ''Medium'', ''High''}"
    by (simp add: handlePricing_def Let_def)
  moreover have "EnergySource (handlePricing sn now_ms hour) \<in> {''Solar'', ''Wind'', ''Grid''}"
    by (simp add: handlePricing_def Let_def)
  moreover have "Hour (handlePricing sn now_ms hour) = hour"
    "PriceTimestamp (handlePricing sn now_ms hour) = now_ms"
    by (simp_all add: handlePricing_def Let_def)
  ultimately show ?thesis
    by blast
qed

text \<open>
  The responses at some hours, given what the sine returns at the angle of the hour: at
  6 o'clock, at noon, at 8 o'clock (for a sine of 0.49999999999999994 and of 0.5) and at
  18 o'clock (for a sine of 1.2246467991473532e-16 and of 1.2246467991473515e-16).
\<close>

lemma handlePricing_six:
  assumes sine: "sn (Finite False 0 0) = Finite False 0 0"
  shows "handlePricing sn t 6 =
     \<lparr>PriceTimestamp = t, PricePerKwh = Finite False 4503599627370496 (- 54), GridLoad = ''Low'',
      EnergySource = ''Grid'', Hour = 6\<rparr>"
proof -
  have f1: "f64_of_int 6 = Finite False 6755399441055744 (- 50)"
    by (simp add: ev)
  have f2: "f64_sub (Finite False 6755399441055744 (- 50)) (Finite False 6 0) = Finite False 0 0"
    by (simp add: ev)
  have f3: "f64_mul (Finite False 0 0) math_Pi = Finite False 0 0"
    by (simp add: ev math_Pi_def)
  have f4: "f64_div (Finite False 0 0) (Finite False 12 0) = Finite False 0 0"
    by (simp add: ev)
  have f5: "f64_lit 25 100 = Finite False 4503599627370496 (- 54)"
    by (simp add: ev)
  have f6: "f64_lit 15 100 = Finite False 5404319552844595 (- 55)"
    by (simp add: ev)
  have f7: "f64_lit 35 100 = Finite False 6305039478318694 (- 54)"
    by (simp add: ev)
  have f8: "f64_lit 9 10 = Finite False 8106479329266893 (- 53)"
    by (simp add: ev)
  have f9: "f64_mul (Finite False 5404319552844595 (- 55)) (Finite False 0 0) = Finite False 0 0"
    by (simp add: ev)
  have f10: "f64_add (Finite False 4503599627370496 (- 54)) (Finite False 0 0) = Finite False 4503599627370496 (- 54)"
    by (simp add: ev)
  have f11: "\<not> f64_less (Finite False 6305039478318694 (- 54)) (Finite False 4503599627370496 (- 54))"
    by (simp add: f64_rat_def)
  have f12: "\<not> f64_less (Finite False 4503599627370496 (- 54)) (Finite False 4503599627370496 (- 54))"
    by (simp add: f64_rat_def)
  have f13: "f64_mul (Finite False 4503599627370496 (- 54)) (Finite False 100 0) = Finite False 7036874417766400 (- 48)"
    by (simp add: ev)
  have f14: "math_Round (Finite False 7036874417766400 (- 48)) = Finite False 25 0"
    by simp
  have f15: "f64_div (Finite False 25 0) (Finite False 100 0) = Finite False 4503599627370496 (- 54)"
    by (simp add: ev)
  show ?thesis
    by (simp add: handlePricing_def Let_def sine f1 f2 f3 f4 f5 f6 f7 f8 f9 f10 f11 f12 f13 f14 f15 f64_rat_def)
qed

lemma handlePricing_noon:
  assumes sine: "sn (Finite False 7074237752028440 (- 52)) = Finite False 4503599627370496 (- 52)"
  shows "handlePricing sn t 12 =
     \<lparr>PriceTimestamp = t, PricePerKwh = Finite False 6485183463413514 (- 54), GridLoad = ''High'',
      EnergySource = ''Solar'', Hour = 12\<rparr>"
proof -
  have f1: "f64_of_int 12 = Finite False 6755399441055744 (- 49)"
    by (simp add: ev)
  have f2: "f64_sub (Finite False 6755399441055744 (- 49)) (Finite False 6 0) = Finite False 6755399441055744 (- 50)"
    by (simp add: ev)
  have f3: "f64_mul (Finite False 6755399441055744 (- 50)) math_Pi = Finite False 5305678314021330 (- 48)"
    by (simp add: ev math_Pi_def)
  have f4: "f64_div (Finite False 5305678314021330 (- 48)) (Finite False 12 0) = Finite False 7074237752028440 (- 52)"
    by (simp add: ev)
  have f5: "f64_lit 25 100 = Finite False 4503599627370496 (- 54)"
    by (simp add: ev)
  have f6: "f64_lit 15 100 = Finite False 5404319552844595 (- 55)"
    by (simp add: ev)
  have f7: "f64_lit 35 100 = Finite False 6305039478318694 (- 54)"
    by (simp add: ev)
  have f8: "f64_lit 9 10 = Finite False 8106479329266893 (- 53)"
    by (simp add: ev)
  have f9: "f64_mul (Finite False 5404319552844595 (- 55)) (Finite False 4503599627370496 (- 52)) = Finite False 5404319552844595 (- 55)"
    by (simp add: ev)
  have f10: "f64_add (Finite False 4503599627370496 (- 54)) (Finite False 5404319552844595 (- 55)) = Finite False 7205759403792794 (- 54)"
    by (simp add: ev)
  have f11: "f64_less (Finite False 6305039478318694 (- 54)) (Finite False 7205759403792794 (- 54))"
    by (simp add: f64_rat_def)
  have f12: "f64_less (Finite False 4503599627370496 (- 54)) (Finite False 7205759403792794 (- 54))"
    by (simp add: f64_rat_def)
  have f13: "f64_mul (Finite False 7205759403792794 (- 54)) (Finite False 8106479329266893 (- 53)) = Finite False 6485183463413515 (- 54)"
    by (simp add: ev)
  have f14: "f64_mul (Finite False 6485183463413515 (- 54)) (Finite False 100 0) = Finite False 5066549580791809 (- 47)"
    by (simp add: ev)
  have f15: "math_Round (Finite False 5066549580791809 (- 47)) = Finite False 36 0"
    by simp
  have f16: "f64_div (Finite False 36 0) (Finite False 100 0) = Finite False 6485183463413514 (- 54)"
    by (simp add: ev)
  show ?thesis
    by (simp add: handlePricing_def Let_def sine f1 f2 f3 f4 f5 f6 f7 f8 f9 f10 f11 f12 f13 f14 f15 f16 f64_rat_def)
qed

lemma handlePricing_eight:
  assumes sine: "sn (Finite False 4716158501352293 (- 53)) = Finite False 9007199254740991 (- 54)"
  shows "handlePricing sn t 8 =
     \<lparr>PriceTimestamp = t, PricePerKwh = Finite False 5224175567749775 (- 54), GridLoad = ''Medium'',
      EnergySource = ''Solar'', Hour = 8\<rparr>"
proof -
  have f1: "f64_of_int 8 = Finite False 4503599627370496 (- 49)"
    by (simp add: ev)
  have f2: "f64_sub (Finite False 4503599627370496 (- 49)) (Finite False 6 0) = Finite False 4503599627370496 (- 51)"
    by (simp add: ev)
  have f3: "f64_mul (Finite False 4503599627370496 (- 51)) math_Pi = Finite False 7074237752028440 (- 50)"
    by (simp add: ev math_Pi_def)
  have f4: "f64_div (Finite False 7074237752028440 (- 50)) (Finite False 12 0) = Finite False 4716158501352293 (- 53)"
    by (simp add: ev)
  have f5: "f64_lit 25 100 = Finite False 4503599627370496 (- 54)"
    by (simp add: ev)
  have f6: "f64_lit 15 100 = Finite False 5404319552844595 (- 55)"
    by (simp add: ev)
  have f7: "f64_lit 35 100 = Finite False 6305039478318694 (- 54)"
    by (simp add: ev)
  have f8: "f64_lit 9 10 = Finite False 8106479329266893 (- 53)"
    by (simp add: ev)
  have f9: "f64_mul (Finite False 5404319552844595 (- 55)) (Finite False 9007199254740991 (- 54)) = Finite False 5404319552844594 (- 56)"
    by (simp add: ev)
  have f10: "f64_add (Finite False 4503599627370496 (- 54)) (Finite False 5404319552844594 (- 56)) = Finite False 5854679515581644 (- 54)"
    by (simp add: ev)
  have f11: "\<not> f64_less (Finite False 6305039478318694 (- 54)) (Finite False 5854679515581644 (- 54))"
    by (simp add: f64_rat_def)
  have f12: "f64_less (Finite False 4503599627370496 (- 54)) (Finite False 5854679515581644 (- 54))"
    by (simp add: f64_rat_def)
  have f13: "f64_mul (Finite False 5854679515581644 (- 54)) (Finite False 8106479329266893 (- 53)) = Finite False 5269211564023480 (- 54)"
    by (simp add: ev)
  have f14: "f64_mul (Finite False 5269211564023480 (- 54)) (Finite False 100 0) = Finite False 8233143068786688 (- 48)"
    by (simp add: ev)
  have f15: "math_Round (Finite False 8233143068786688 (- 48)) = Finite False 29 0"
    by simp
  have f16: "f64_div (Finite False 29 0) (Finite False 100 0) = Finite False 5224175567749775 (- 54)"
    by (simp add: ev)
  show ?thesis
    by (simp add: handlePricing_def Let_def sine f1 f2 f3 f4 f5 f6 f7 f8 f9 f10 f11 f12 f13 f14 f15 f16 f64_rat_def)
qed

lemma handlePricing_eight_half:
  assumes sine: "sn (Finite False 4716158501352293 (- 53)) = Finite False 4503599627370496 (- 53)"
  shows "handlePricing sn t 8 =
     \<lparr>PriceTimestamp = t, PricePerKwh = Finite False 5224175567749775 (- 54), GridLoad = ''Medium'',
      EnergySource = ''Solar'', Hour = 8\<rparr>"
proof -
  have f1: "f64_of_int 8 = Finite False 4503599627370496 (- 49)"
    by (simp add: ev)
  have f2: "f64_sub (Finite False 4503599627370496 (- 49)) (Finite False 6 0) = Finite False 4503599627370496 (- 51)"
    by (simp add: ev)
  have f3: "f64_mul (Finite False 4503599627370496 (- 51)) math_Pi = Finite False 7074237752028440 (- 50)"
    by (simp add: ev math_Pi_def)
  have f4: "f64_div (Finite False 7074237752028440 (- 50)) (Finite False 12 0) = Finite False 4716158501352293 (- 53)"
    by (simp add: ev)
  have f5: "f64_lit 25 100 = Finite False 4503599627370496 (- 54)"
    by (simp add: ev)
  have f6: "f64_lit 15 100 = Finite False 5404319552844595 (- 55)"
    by (simp add: ev)
  have f7: "f64_lit 35 100 = Finite False 6305039478318694 (- 54)"
    by (simp add: ev)
  have f8: "f64_lit 9 10 = Finite False 8106479329266893 (- 53)"
    by (simp add: ev)
  have f9: "f64_mul (Finite False 5404319552844595 (- 55)) (Finite False 4503599627370496 (- 53)) = Finite False 5404319552844595 (- 56)"
    by (simp add: ev)
  have f10: "f64_add (Finite False 4503599627370496 (- 54)) (Finite False 5404319552844595 (- 56)) = Finite False 5854679515581645 (- 54)"
    by (simp add: ev)
  have f11: "\<not> f64_less (Finite False 6305039478318694 (- 54)) (Finite False 5854679515581645 (- 54))"
    by (simp add: f64_rat_def)
  have f12: "f64_less (Finite False 4503599627370496 (- 54)) (Finite False 5854679515581645 (- 54))"
    by (simp add: f64_rat_def)
  have f13: "f64_mul (Finite False 5854679515581645 (- 54)) (Finite False 8106479329266893 (- 53)) = Finite False 5269211564023481 (- 54)"
    by (simp add: ev)
  have f14: "f64_mul (Finite False 5269211564023481 (- 54)) (Finite False 100 0) = Finite False 8233143068786689 (- 48)"
    by (simp add: ev)
  have f15: "math_Round (Finite False 8233143068786689 (- 48)) = Finite False 29 0"
    by simp
  have f16: "f64_div (Finite False 29 0) (Finite False 100 0) = Finite False 5224175567749775 (- 54)"
    by (simp add: ev)
  show ?thesis
    by (simp add: handlePricing_def Let_def sine f1 f2 f3 f4 f5 f6 f7 f8 f9 f10 f11 f12 f13 f14 f15 f16 f64_rat_def)
qed

lemma handlePricing_eighteen:
  assumes sine: "sn (Finite False 7074237752028440 (- 51)) = Finite False 4967757600021511 (- 105)"
  shows "handlePricing sn t 18 =
     \<lparr>PriceTimestamp = t, PricePerKwh = Finite False 8286623314361713 (- 55), GridLoad = ''Low'',
      EnergySource = ''Solar'', Hour = 18\<rparr>"
proof -
  have f1: "f64_of_int 18 = Finite False 5066549580791808 (- 48)"
    by (simp add: ev)
  have f2: "f64_sub (Finite False 5066549580791808 (- 48)) (Finite False 6 0) = Finite False 6755399441055744 (- 49)"
    by (simp add: ev)
  have f3: "f64_mul (Finite False 6755399441055744 (- 49)) math_Pi = Finite False 5305678314021330 (- 47)"
    by (simp add: ev math_Pi_def)
  have f4: "f64_div (Finite False 5305678314021330 (- 47)) (Finite False 12 0) = Finite False 7074237752028440 (- 51)"
    by (simp add: ev)
  have f5: "f64_lit 25 100 = Finite False 4503599627370496 (- 54)"
    by (simp add: ev)
  have f6: "f64_lit 15 100 = Finite False 5404319552844595 (- 55)"
    by (simp add: ev)
  have f7: "f64_lit 35 100 = Finite False 6305039478318694 (- 54)"
    by (simp add: ev)
  have f8: "f64_lit 9 10 = Finite False 8106479329266893 (- 53)"
    by (simp add: ev)
  have f9: "f64_mul (Finite False 5404319552844595 (- 55)) (Finite False 4967757600021511 (- 105)) = Finite False 5961309120025813 (- 108)"
    by (simp add: ev)
  have f10: "f64_add (Finite False 4503599627370496 (- 54)) (Finite False 5961309120025813 (- 108)) = Finite False 4503599627370496 (- 54)"
    by (simp add: ev)
  have f11: "\<not> f64_less (Finite False 6305039478318694 (- 54)) (Finite False 4503599627370496 (- 54))"
    by (simp add: f64_rat_def)
  have f12: "\<not> f64_less (Finite False 4503599627370496 (- 54)) (Finite False 4503599627370496 (- 54))"
    by (simp add: f64_rat_def)
  have f13: "f64_mul (Finite False 4503599627370496 (- 54)) (Finite False 8106479329266893 (- 53)) = Finite False 8106479329266893 (- 55)"
    by (simp add: ev)
  have f14: "f64_mul (Finite False 8106479329266893 (- 55)) (Finite False 100 0) = Finite False 6333186975989760 (- 48)"
    by (simp add: ev)
  have f15: "math_Round (Finite False 6333186975989760 (- 48)) = Finite False 23 0"
    by simp
  have f16: "f64_div (Finite False 23 0) (Finite False 100 0) = Finite False 8286623314361713 (- 55)"
    by (simp add: ev)
  show ?thesis
    by (simp add: handlePricing_def Let_def sine f1 f2 f3 f4 f5 f6 f7 f8 f9 f10 f11 f12 f13 f14 f15 f16 f64_rat_def)
qed

lemma handlePricing_eighteen_go:
  assumes sine: "sn (Finite False 7074237752028440 (- 51)) = Finite False 4967757600021504 (- 105)"
  shows "handlePricing sn t 18 =
     \<lparr>PriceTimestamp = t, PricePerKwh = Finite False 8286623314361713 (- 55), GridLoad = ''Low'',
      EnergySource = ''Solar'', Hour = 18\<rparr>"
proof -
  have f1: "f64_of_int 18 = Finite False 5066549580791808 (- 48)"
    by (simp add: ev)
  have f2: "f64_sub (Finite False 5066549580791808 (- 48)) (Finite False 6 0) = Finite False 6755399441055744 (- 49)"
    by (simp add: ev)
  have f3: "f64_mul (Finite False 6755399441055744 (- 49)) math_Pi = Finite False 5305678314021330 (- 47)"
    by (simp add: ev math_Pi_def)
  have f4: "f64_div (Finite False 5305678314021330 (- 47)) (Finite False 12 0) = Finite False 7074237752028440 (- 51)"
    by (simp add: ev)
  have f5: "f64_lit 25 100 = Finite False 4503599627370496 (- 54)"
    by (simp add: ev)
  have f6: "f64_lit 15 100 = Finite False 5404319552844595 (- 55)"
    by (simp add: ev)
  have f7: "f64_lit 35 100 = Finite False 6305039478318694 (- 54)"
    by (simp add: ev)
  have f8: "f64_lit 9 10 = Finite False 8106479329266893 (- 53)"
    by (simp add: ev)
  have f9: "f64_mul (Finite False 5404319552844595 (- 55)) (Finite False 4967757600021504 (- 105)) = Finite False 5961309120025805 (- 108)"
    by (simp add: ev)
  have f10: "f64_add (Finite False 4503599627370496 (- 54)) (Finite False 5961309120025805 (- 108)) = Finite False 4503599627370496 (- 54)"
    by (simp add: ev)
  have f11: "\<not> f64_less (Finite False 6305039478318694 (- 54)) (Finite False 4503599627370496 (- 54))"
    by (simp add: f64_rat_def)
  have f12: "\<not> f64_less (Finite False 4503599627370496 (- 54)) (Finite False 4503599627370496 (- 54))"
    by (simp add: f64_rat_def)
  have f13: "f64_mul (Finite False 4503599627370496 (- 54)) (Finite False 8106479329266893 (- 53)) = Finite False 8106479329266893 (- 55)"
    by (simp add: ev)
  have f14: "f64_mul (Finite False 8106479329266893 (- 55)) (Finite False 100 0) = Finite False 6333186975989760 (- 48)"
    by (simp add: ev)
  have f15: "math_Round (Finite False 6333186975989760 (- 48)) = Finite False 23 0"
    by simp
  have f16: "f64_div (Finite False 23 0) (Finite False 100 0) = Finite False 8286623314361713 (- 55)"
    by (simp add: ev)
  show ?thesis
    by (simp add: handlePricing_def Let_def sine f1 f2 f3 f4 f5 f6 f7 f8 f9 f10 f11 f12 f13 f14 f15 f16 f64_rat_def)
qed

theorem pricing_response_shape_witness:
  "is_finite (PricePerKwh (handlePricing known_sines 1701532800000 12)) \<and>
   PricePerKwh (handlePricing known_sines 1701532800000 12) = f64_nearest False 36 100 \<and>
   f64_nearest False 36 100 = Finite False 6485183463413514 (- 54) \<and>
   GridLoad (handlePricing known_sines 1701532800000 12) = ''High'' \<and>
   EnergySource (handlePricing known_sines 1701532800000 12) = ''Solar'' \<and>
   PricePerKwh (handlePricing known_sines 1701532800000 6) = f64_nearest False 25 100 \<and>
   GridLoad (handlePricing known_sines 1701532800000 6) = ''Low''"
proof -
  have noon: "handlePricing known_sines 1701532800000 12 =
      \<lparr>PriceTimestamp = 1701532800000, PricePerKwh = Finite False 6485183463413514 (- 54),
       GridLoad = ''High'', EnergySource = ''Solar'', Hour = 12\<rparr>"
    by (rule handlePricing_noon) (simp add: known_sines_def)
  have six: "handlePricing known_sines 1701532800000 6 =
      \<lparr>PriceTimestamp = 1701532800000, PricePerKwh = Finite False 4503599627370496 (- 54),
       GridLoad = ''Low'', EnergySource = ''Grid'', Hour = 6\<rparr>"
    by (rule handlePricing_six) (simp add: known_sines_def)
  have nearest: "f64_nearest False 36 100 = Finite False 6485183463413514 (- 54)"
    "f64_nearest False 25 100 = Finite False 4503599627370496 (- 54)"
    by (simp_all add: ev)
  show ?thesis
    using pricing_response_shape [of known_sines 1701532800000 12]
    by (simp add: noon six nearest)
qed

end
